theory Spec2Isabelle
  imports Complex_Main "HOL-Library.Sublist" "HOL-Library.Multiset"
begin

section \<open>JavaScript values\<close>

text \<open>
  The adapter (\<^verbatim>\<open>lib/airtable.ts\<close>) reads field values of type \<^verbatim>\<open>unknown\<close> that come out
  of parsed JSON. A number is a finite value, \<^verbatim>\<open>NaN\<close> or an infinity; the finite values are
  kept as rationals, so rounding to a double is not part of the model. A string is the list
  of the bytes of its UTF-8 encoding, the strings being well-formed Unicode; a character of
  the ASCII range is one byte, as in a string literal of this theory. An object is the list
  of its own properties in insertion order; the keys of an object are pairwise distinct.
\<close>

datatype jsnum = Finite rat | NaN | PosInf | NegInf

datatype jsval =
    JUndefined
  | JNull
  | JBool bool
  | JNum jsnum
  | JStr string
  | JArr "jsval list"
  | JObj "(string \<times> jsval) list"

text \<open>\<^verbatim>\<open>Number.isFinite\<close> on a number.\<close>

fun isFinite :: "jsnum \<Rightarrow> bool" where
  "isFinite (Finite q) = True"
| "isFinite NaN = False"
| "isFinite PosInf = False"
| "isFinite NegInf = False"

text \<open>The truth value JavaScript gives a value in a condition.\<close>

fun truthy :: "jsval \<Rightarrow> bool" where
  "truthy JUndefined = False"
| "truthy JNull = False"
| "truthy (JBool b) = b"
| "truthy (JNum n) = (case n of Finite q \<Rightarrow> q \<noteq> 0 | NaN \<Rightarrow> False | _ \<Rightarrow> True)"
| "truthy (JStr s) = (s \<noteq> [])"
| "truthy (JArr xs) = True"
| "truthy (JObj kvs) = True"

text \<open>
  A value of type \<^verbatim>\<open>string | undefined\<close> is a \<^typ>\<open>string option\<close>. \<open>isSet\<close> is its
  truth value, \<open>or_default v d\<close> is \<^verbatim>\<open>v || d\<close>, and \<open>template\<close> is what a template literal
  prints for it.
\<close>

definition isSet :: "string option \<Rightarrow> bool" where
  "isSet v = (case v of Some s \<Rightarrow> s \<noteq> [] | None \<Rightarrow> False)"

definition or_default :: "string option \<Rightarrow> string \<Rightarrow> string" where
  "or_default v d = (if isSet v then the v else d)"

definition template :: "string option \<Rightarrow> string" where
  "template v = (case v of Some s \<Rightarrow> s | None \<Rightarrow> ''undefined'')"

text \<open>Property access \<^verbatim>\<open>fields[key]\<close>, the test \<^verbatim>\<open>key in fields\<close> and the assignment
  \<^verbatim>\<open>fields[key] = value\<close>, which keeps the position of a key that is already there.\<close>

definition get_prop :: "(string \<times> jsval) list \<Rightarrow> string \<Rightarrow> jsval" where
  "get_prop flds key = (case map_of flds key of Some v \<Rightarrow> v | None \<Rightarrow> JUndefined)"

definition has_prop :: "(string \<times> jsval) list \<Rightarrow> string \<Rightarrow> bool" where
  "has_prop flds key = (key \<in> set (map fst flds))"

fun set_prop :: "(string \<times> jsval) list \<Rightarrow> string \<Rightarrow> jsval \<Rightarrow> (string \<times> jsval) list" where
  "set_prop [] key v = [(key, v)]"
| "set_prop ((k, w) # flds) key v =
     (if k = key then (key, v) # flds else (k, w) # set_prop flds key v)"

text \<open>Optional chaining \<^verbatim>\<open>v?.key\<close>, for the keys \<^verbatim>\<open>error\<close> and \<^verbatim>\<open>message\<close>, which
  no built-in prototype defines: only an object can have them.\<close>

definition opt_chain :: "jsval \<Rightarrow> string \<Rightarrow> jsval" where
  "opt_chain v key = (case v of JObj kvs \<Rightarrow> get_prop kvs key | _ \<Rightarrow> JUndefined)"

subsection \<open>Strings\<close>

text \<open>\<^verbatim>\<open>toLowerCase\<close> on the letters A to Z; every other character is left as it is.\<close>

definition lower_char :: "char \<Rightarrow> char" where
  "lower_char c =
     (case map_of (zip ''ABCDEFGHIJKLMNOPQRSTUVWXYZ'' ''abcdefghijklmnopqrstuvwxyz'') c of
        Some d \<Rightarrow> d
      | None \<Rightarrow> c)"

definition toLowerCase :: "string \<Rightarrow> string" where
  "toLowerCase s = map lower_char s"

text \<open>\<^verbatim>\<open>s.includes(t)\<close>: \<open>t\<close> occurs in \<open>s\<close> as a contiguous run of characters.\<close>

fun str_includes :: "string \<Rightarrow> string \<Rightarrow> bool" where
  "str_includes [] t = (t = [])"
| "str_includes (c # s) t = (prefix t (c # s) \<or> str_includes s t)"

text \<open>
  \<^verbatim>\<open>trim\<close> removes white space and line terminators from both ends. These are the code points
  U+0009 to U+000D, U+0020, U+00A0, U+1680, U+2000 to U+200A, U+2028, U+2029, U+202F, U+205F,
  U+3000 and U+FEFF; \<open>whiteSpace\<close> lists their UTF-8 encodings. No encoding is the beginning of
  another, so at most one of them opens a string. \<open>stripLeading\<close> removes the encodings of a
  list from the front of a string for as long as one of them opens it; at the end of the
  string the same is done on the reversed string with the reversed encodings.
\<close>

definition whiteSpace :: "string list" where
  "whiteSpace =
     [[CHR 0x09], [CHR 0x0A], [CHR 0x0B], [CHR 0x0C], [CHR 0x0D], [CHR 0x20],
      [CHR 0xC2, CHR 0xA0],
      [CHR 0xE1, CHR 0x9A, CHR 0x80],
      [CHR 0xE2, CHR 0x80, CHR 0x80], [CHR 0xE2, CHR 0x80, CHR 0x81],
      [CHR 0xE2, CHR 0x80, CHR 0x82], [CHR 0xE2, CHR 0x80, CHR 0x83],
      [CHR 0xE2, CHR 0x80, CHR 0x84], [CHR 0xE2, CHR 0x80, CHR 0x85],
      [CHR 0xE2, CHR 0x80, CHR 0x86], [CHR 0xE2, CHR 0x80, CHR 0x87],
      [CHR 0xE2, CHR 0x80, CHR 0x88], [CHR 0xE2, CHR 0x80, CHR 0x89],
      [CHR 0xE2, CHR 0x80, CHR 0x8A],
      [CHR 0xE2, CHR 0x80, CHR 0xA8], [CHR 0xE2, CHR 0x80, CHR 0xA9],
      [CHR 0xE2, CHR 0x80, CHR 0xAF],
      [CHR 0xE2, CHR 0x81, CHR 0x9F],
      [CHR 0xE3, CHR 0x80, CHR 0x80],
      [CHR 0xEF, CHR 0xBB, CHR 0xBF]]"

function stripLeading :: "string list \<Rightarrow> string \<Rightarrow> string" where
  "stripLeading ws s =
     (case find (\<lambda>w. w \<noteq> [] \<and> prefix w s) ws of
        Some w \<Rightarrow> stripLeading ws (drop (length w) s)
      | None \<Rightarrow> s)"
  by pat_completeness auto
termination
  by (relation "measure (\<lambda>(ws, s). length s)") (auto simp: find_Some_iff prefix_def)

declare stripLeading.simps [simp del]

definition trim :: "string \<Rightarrow> string" where
  "trim s = rev (stripLeading (map rev whiteSpace) (rev (stripLeading whiteSpace s)))"

text \<open>\<^verbatim>\<open>parts.join(sep)\<close>.\<close>

fun join :: "string \<Rightarrow> string list \<Rightarrow> string" where
  "join sep [] = []"
| "join sep [x] = x"
| "join sep (x # y # ys) = x @ sep @ join sep (y # ys)"

text \<open>The decimal digits of a natural number, as a template literal prints an HTTP status.\<close>

fun string_of_nat :: "nat \<Rightarrow> string" where
  "string_of_nat n =
     (if n < 10 then [''0123456789'' ! n]
      else string_of_nat (n div 10) @ [''0123456789'' ! (n mod 10)])"

subsection \<open>Built-in conversions\<close>

text \<open>
  Three conversions of the language are used by the adapter and are not part of it:
  \<^verbatim>\<open>Number(s)\<close>, \<^verbatim>\<open>String(n)\<close> and \<^verbatim>\<open>new Date(s).getTime()\<close> (\<open>None\<close> is
  \<^verbatim>\<open>NaN\<close>, an invalid date). They are parameters of the model: every theorem holds for any
  choice of them.
\<close>

record js_runtime =
  toNumber :: "string \<Rightarrow> jsnum"
  numberToString :: "jsnum \<Rightarrow> string"
  dateTime :: "string \<Rightarrow> int option"

text \<open>\<^verbatim>\<open>ToString\<close> of a value, as \<^verbatim>\<open>new Error(message)\<close> applies it to its argument.\<close>

fun toString :: "js_runtime \<Rightarrow> jsval \<Rightarrow> string"
  and toString_elem :: "js_runtime \<Rightarrow> jsval \<Rightarrow> string" where
  "toString rt JUndefined = ''undefined''"
| "toString rt JNull = ''null''"
| "toString rt (JBool b) = (if b then ''true'' else ''false'')"
| "toString rt (JNum n) = numberToString rt n"
| "toString rt (JStr s) = s"
| "toString rt (JArr xs) = join '','' (map (toString_elem rt) xs)"
| "toString rt (JObj kvs) = ''[object Object]''"
| "toString_elem rt v = (if v = JUndefined \<or> v = JNull then [] else toString rt v)"

section \<open>Configuration\<close>

text \<open>\<^verbatim>\<open>import.meta.env\<close>: a setting is a string or is absent.\<close>

type_synonym env = "string \<Rightarrow> string option"

record config =
  token :: "string option"
  baseId :: "string option"
  tableId :: "string option"
  fieldName :: string
  fieldRepEmail :: string
  fieldStatus :: string
  fieldLatestUpdate :: string
  fieldCcComments :: string
  fieldCcUpdateTime :: string
  fieldLeadEmail :: "string option"
  fieldLeadPhone :: "string option"
  fieldNotes :: "string option"
  fieldAffiliateComments :: "string option"
  affiliateCommentsTableId :: string
  affiliateCommentsLeadLinkField :: string
  affiliateCommentsTextField :: string
  affiliateCommentsAuthorField :: string

text \<open>The module constant \<^verbatim>\<open>config\<close>, as a function of the environment it is read from.\<close>

definition loadConfig :: "env \<Rightarrow> config" where
  "loadConfig e =
     \<lparr> token = e ''VITE_AIRTABLE_TOKEN'',
       baseId = e ''VITE_AIRTABLE_BASE_ID'',
       tableId = e ''VITE_AIRTABLE_TABLE_ID'',
       fieldName = or_default (e ''VITE_AIRTABLE_NAME_FIELD'') ''Name'',
       fieldRepEmail = or_default (e ''VITE_AIRTABLE_REP_EMAIL_FIELD'') ''PS Rep Email'',
       fieldStatus = or_default (e ''VITE_AIRTABLE_STATUS_FIELD'') ''Status'',
       fieldLatestUpdate = or_default (e ''VITE_AIRTABLE_LATEST_UPDATE_FIELD'') ''Latest Update'',
       fieldCcComments = or_default (e ''VITE_AIRTABLE_CC_COMMENTS_FIELD'') ''CC Comments'',
       fieldCcUpdateTime = or_default (e ''VITE_AIRTABLE_CC_UPDATE_TIME_FIELD'') ''CC Update Time'',
       fieldLeadEmail = e ''VITE_AIRTABLE_LEAD_EMAIL_FIELD'',
       fieldLeadPhone = e ''VITE_AIRTABLE_LEAD_PHONE_FIELD'',
       fieldNotes = e ''VITE_AIRTABLE_NOTES_FIELD'',
       fieldAffiliateComments = e ''VITE_AIRTABLE_AFFILIATE_COMMENTS_FIELD'',
       affiliateCommentsTableId =
         or_default (e ''VITE_AIRTABLE_AFFILIATE_COMMENTS_TABLE_ID'') ''tblrMlNIChN4hKVkM'',
       affiliateCommentsLeadLinkField =
         or_default (e ''VITE_AIRTABLE_AFFILIATE_COMMENT_LEAD_LINK_FIELD'') ''Lead'',
       affiliateCommentsTextField =
         or_default (e ''VITE_AIRTABLE_AFFILIATE_COMMENT_TEXT_FIELD'') ''Comment'',
       affiliateCommentsAuthorField =
         or_default (e ''VITE_AIRTABLE_AFFILIATE_COMMENT_AUTHOR_FIELD'') ''Created By'' \<rparr>"

datatype exn =
    Error string
  | TypeError string
  | SyntaxError

definition getBaseUrl :: "config \<Rightarrow> exn + string" where
  "getBaseUrl cfg =
     (if \<not> isSet (token cfg) \<or> \<not> isSet (baseId cfg) \<or> \<not> isSet (tableId cfg)
      then Inl (Error ''Airtable config missing. Set VITE_AIRTABLE_TOKEN, VITE_AIRTABLE_BASE_ID, and VITE_AIRTABLE_TABLE_ID.'')
      else Inr (''https://api.airtable.com/v0/'' @ template (baseId cfg) @ ''/'' @ template (tableId cfg)))"

definition getCommentsBaseUrl :: "config \<Rightarrow> exn + string" where
  "getCommentsBaseUrl cfg =
     (if \<not> isSet (token cfg) \<or> \<not> isSet (baseId cfg) \<or> affiliateCommentsTableId cfg = []
      then Inl (Error ''Airtable comments config missing. Set VITE_AIRTABLE_TOKEN, VITE_AIRTABLE_BASE_ID, and VITE_AIRTABLE_AFFILIATE_COMMENTS_TABLE_ID.'')
      else Inr (''https://api.airtable.com/v0/'' @ template (baseId cfg) @ ''/''
                  @ affiliateCommentsTableId cfg))"

definition getHeaders :: "config \<Rightarrow> (string \<times> string) list" where
  "getHeaders cfg =
     [(''Authorization'', ''Bearer '' @ template (token cfg)),
      (''Content-Type'', ''application/json'')]"

definition isMessagingConfigured :: "config \<Rightarrow> bool" where
  "isMessagingConfigured cfg =
     (affiliateCommentsTableId cfg \<noteq> [] \<and> affiliateCommentsLeadLinkField cfg \<noteq> []
      \<and> affiliateCommentsTextField cfg \<noteq> [])"

section \<open>Record mapper\<close>

datatype LeadStatus = New | Contacted | Qualified | Converted | Lost | Unknown

text \<open>A \<^verbatim>\<open>Date\<close> is its time value in milliseconds, \<open>None\<close> for an invalid date.\<close>

record AirtableRecord =
  record_id :: string
  record_createdTime :: string
  record_fields :: "(string \<times> jsval) list"

record Lead =
  lead_id :: string
  lead_name :: string
  lead_status :: LeadStatus
  lead_createdTime :: "int option"
  lead_latestUpdate :: "int option"
  lead_psRepEmail :: "string option"
  lead_ccComments :: jsnum
  lead_ccUpdateTime :: "int option"
  lead_leadEmail :: "string option"
  lead_leadPhone :: "string option"
  lead_notes :: "string option"
  lead_affiliateComments :: "string option"

record NewLeadInput =
  input_name :: string
  input_affiliateEmail :: string
  input_leadEmail :: "string option"
  input_leadPhone :: "string option"
  input_notes :: "string option"
  input_initialMessage :: "string option"

record AffiliateComment =
  comment_id :: string
  comment_text :: string
  comment_createdTime :: "int option"
  comment_author :: "string option"

definition parseDate :: "js_runtime \<Rightarrow> jsval \<Rightarrow> int option" where
  "parseDate rt v =
     (if \<not> truthy v then None
      else (case v of JStr s \<Rightarrow> dateTime rt s | _ \<Rightarrow> None))"

fun parseText :: "js_runtime \<Rightarrow> jsval \<Rightarrow> string option" where
  "parseText rt (JStr s) = Some s"
| "parseText rt (JNum n) = Some (numberToString rt n)"
| "parseText rt (JArr items) =
     (let textParts = filter isSet (map (parseText rt) items)
      in if textParts \<noteq> [] then Some (join '', '' (map the textParts)) else None)"
| "parseText rt v = None"

definition parseNumber :: "js_runtime \<Rightarrow> jsval \<Rightarrow> jsnum \<Rightarrow> jsnum" where
  "parseNumber rt v fallback =
     (case v of
        JNum n \<Rightarrow> if isFinite n then n else fallback
      | JStr s \<Rightarrow> (let parsed = toNumber rt s in if isFinite parsed then parsed else fallback)
      | _ \<Rightarrow> fallback)"

definition normalizeStatus :: "jsval \<Rightarrow> LeadStatus" where
  "normalizeStatus raw =
     (case raw of
        JStr s \<Rightarrow>
          (let v = toLowerCase s
           in if v = ''new'' then New
              else if v = ''contacted'' then Contacted
              else if v = ''qualified'' then Qualified
              else if v = ''converted'' then Converted
              else if v = ''lost'' then Lost
              else Unknown)
      | _ \<Rightarrow> Unknown)"

definition mapRecordToLead :: "js_runtime \<Rightarrow> config \<Rightarrow> AirtableRecord \<Rightarrow> Lead" where
  "mapRecordToLead rt cfg r =
     (let flds = record_fields r
      in \<lparr> lead_id = record_id r,
           lead_name = or_default (parseText rt (get_prop flds (fieldName cfg))) ''Unnamed Lead'',
           lead_status = normalizeStatus (get_prop flds (fieldStatus cfg)),
           lead_createdTime = dateTime rt (record_createdTime r),
           lead_latestUpdate = parseDate rt (get_prop flds (fieldLatestUpdate cfg)),
           lead_psRepEmail = parseText rt (get_prop flds (fieldRepEmail cfg)),
           lead_ccComments = parseNumber rt (get_prop flds (fieldCcComments cfg)) (Finite 0),
           lead_ccUpdateTime = parseDate rt (get_prop flds (fieldCcUpdateTime cfg)),
           lead_leadEmail =
             (if isSet (fieldLeadEmail cfg)
              then parseText rt (get_prop flds (the (fieldLeadEmail cfg))) else None),
           lead_leadPhone =
             (if isSet (fieldLeadPhone cfg)
              then parseText rt (get_prop flds (the (fieldLeadPhone cfg))) else None),
           lead_notes =
             (if isSet (fieldNotes cfg)
              then parseText rt (get_prop flds (the (fieldNotes cfg))) else None),
           lead_affiliateComments =
             (if isSet (fieldAffiliateComments cfg)
              then parseText rt (get_prop flds (the (fieldAffiliateComments cfg))) else None) \<rparr>)"

definition setIfConfigured ::
  "(string \<times> jsval) list \<Rightarrow> string option \<Rightarrow> string option \<Rightarrow> (string \<times> jsval) list" where
  "setIfConfigured flds key v =
     (if isSet key \<and> isSet v then set_prop flds (the key) (JStr (the v)) else flds)"

fun getFirstTextField ::
  "js_runtime \<Rightarrow> (string \<times> jsval) list \<Rightarrow> string list \<Rightarrow> string option" where
  "getFirstTextField rt flds [] = None"
| "getFirstTextField rt flds (candidate # rest) =
     (case parseText rt (get_prop flds candidate) of
        Some v \<Rightarrow> Some v
      | None \<Rightarrow> getFirstTextField rt flds rest)"

text \<open>The predicate of \<^verbatim>\<open>recordLinksToLead\<close> on one element of an array field.\<close>

definition itemLinksToLead :: "string \<Rightarrow> jsval \<Rightarrow> bool" where
  "itemLinksToLead leadId item =
     (case item of
        JStr s \<Rightarrow> s = leadId
      | JObj kvs \<Rightarrow> has_prop kvs ''id'' \<and> get_prop kvs ''id'' = JStr leadId
      | _ \<Rightarrow> False)"

definition recordLinksToLead :: "AirtableRecord \<Rightarrow> string \<Rightarrow> bool" where
  "recordLinksToLead r leadId =
     list_ex
       (\<lambda>v. case v of
              JArr items \<Rightarrow> list_ex (itemLinksToLead leadId) items
            | JStr s \<Rightarrow> str_includes s leadId
            | _ \<Rightarrow> False)
       (map snd (record_fields r))"

section \<open>The remote store\<close>

text \<open>
  A request is the method, the endpoint, the query parameters (decoded: the percent-encoding
  of the URL is not modelled), the headers and the JSON document of the body.
\<close>

datatype http_method = GET | POST

record request =
  req_method :: http_method
  req_url :: string
  req_query :: "(string \<times> string) list"
  req_headers :: "(string \<times> string) list"
  req_body :: "jsval option"

text \<open>
  The body of a successful response is read through the declared types
  \<^verbatim>\<open>AirtableListResponse & { offset?: string }\<close> and \<^verbatim>\<open>AirtableCreateResponse\<close>: a list of
  records and, for a list, the continuation token.
\<close>

record Payload =
  records :: "AirtableRecord list"
  offset :: "string option"

text \<open>
  A response either has a success status (\<^verbatim>\<open>response.ok\<close>), and its body is a payload unless
  it is not JSON at all (\<open>None\<close>: \<^verbatim>\<open>response.json()\<close> rejects), or it carries a status code,
  a status text and a body that is any JSON document or none.
\<close>

datatype response =
    Success "Payload option"
  | Failure nat string "jsval option"

text \<open>\<^verbatim>\<open>fetch\<close> resolves with a response or rejects (a network failure).\<close>

datatype fetch_result = Rejected string | Responded response

text \<open>
  The remote store is any deterministic machine: a state of type \<^typ>\<open>'w\<close> and a function that
  answers a request and moves to the next state. The adapter's side of the network is the
  list of the requests it has issued so far.
\<close>

type_synonym 'w remote = "request \<Rightarrow> 'w \<Rightarrow> fetch_result \<times> 'w"

record 'w net =
  server :: 'w
  sent :: "request list"

definition fetch :: "'w remote \<Rightarrow> request \<Rightarrow> 'w net \<Rightarrow> fetch_result \<times> 'w net" where
  "fetch h rq n =
     (case h rq (server n) of
        (res, s') \<Rightarrow> (res, \<lparr> server = s', sent = sent n @ [rq] \<rparr>))"

text \<open>\<^verbatim>\<open>(await response.json()) as AirtableListResponse\<close>, reached for a success status only.\<close>

fun response_json :: "response \<Rightarrow> Payload option" where
  "response_json (Success p) = p"
| "response_json (Failure status statusText body) = None"

fun throwIfNotOk :: "js_runtime \<Rightarrow> response \<Rightarrow> exn + unit" where
  "throwIfNotOk rt (Success p) = Inr ()"
| "throwIfNotOk rt (Failure status statusText body) =
     (let errorPayload = (case body of Some j \<Rightarrow> j | None \<Rightarrow> JObj []);
          message = opt_chain (opt_chain errorPayload ''error'') ''message''
      in Inl (Error (if truthy message then toString rt message
                     else ''Airtable request failed ('' @ string_of_nat status @ '' ''
                            @ statusText @ '')'')))"

text \<open>\<^verbatim>\<open>URLSearchParams.set\<close>: the first entry of that name takes the value and the other
  entries of that name go; without one, the entry is appended.\<close>

fun set_param :: "string \<Rightarrow> string \<Rightarrow> (string \<times> string) list \<Rightarrow> (string \<times> string) list" where
  "set_param key v [] = [(key, v)]"
| "set_param key v ((k, w) # ps) =
     (if k = key then (key, v) # filter (\<lambda>p. fst p \<noteq> key) ps
      else (k, w) # set_param key v ps)"

text \<open>The request of one iteration of \<^verbatim>\<open>fetchAllRecords\<close>: a copy of the parameters, with
  \<^verbatim>\<open>offset\<close> set when the previous response carried a token.\<close>

definition pageRequest ::
  "config \<Rightarrow> string \<Rightarrow> (string \<times> string) list \<Rightarrow> string option \<Rightarrow> request" where
  "pageRequest cfg baseUrl params off =
     (let currentParams = (if isSet off then set_param ''offset'' (the off) params else params)
      in \<lparr> req_method = GET, req_url = baseUrl, req_query = currentParams,
           req_headers = getHeaders cfg, req_body = None \<rparr>)"

text \<open>
  The \<^verbatim>\<open>do ... while (offset)\<close> loop of \<^verbatim>\<open>fetchAllRecords\<close>: one call is one iteration, with
  the records collected so far and the token of the previous response. The loop runs as long
  as the remote store hands out tokens, so the result is an option: \<open>None\<close> is a loop that
  never ends.
\<close>

partial_function (option) fetchAllRecords_loop ::
  "js_runtime \<Rightarrow> config \<Rightarrow> 'w remote \<Rightarrow> string \<Rightarrow> (string \<times> string) list
     \<Rightarrow> AirtableRecord list \<Rightarrow> string option \<Rightarrow> 'w net
     \<Rightarrow> ((exn + AirtableRecord list) \<times> 'w net) option" where
  "fetchAllRecords_loop rt cfg h baseUrl params recs off n =
     (case fetch h (pageRequest cfg baseUrl params off) n of
        (Rejected e, n1) \<Rightarrow> Some (Inl (TypeError e), n1)
      | (Responded resp, n1) \<Rightarrow>
          (case throwIfNotOk rt resp of
             Inl e \<Rightarrow> Some (Inl e, n1)
           | Inr u \<Rightarrow>
               (case response_json resp of
                  None \<Rightarrow> Some (Inl SyntaxError, n1)
                | Some payload \<Rightarrow>
                    (if isSet (offset payload)
                     then fetchAllRecords_loop rt cfg h baseUrl params
                            (recs @ records payload) (offset payload) n1
                     else Some (Inr (recs @ records payload), n1)))))"

definition fetchAllRecords ::
  "js_runtime \<Rightarrow> config \<Rightarrow> 'w remote \<Rightarrow> string \<Rightarrow> (string \<times> string) list \<Rightarrow> 'w net
     \<Rightarrow> ((exn + AirtableRecord list) \<times> 'w net) option" where
  "fetchAllRecords rt cfg h baseUrl params n =
     fetchAllRecords_loop rt cfg h baseUrl params [] None n"

section \<open>Lead repository\<close>

definition fetchLeads ::
  "js_runtime \<Rightarrow> config \<Rightarrow> 'w remote \<Rightarrow> 'w net \<Rightarrow> (exn + Lead list) \<times> 'w net" where
  "fetchLeads rt cfg h n =
     (case getBaseUrl cfg of
        Inl e \<Rightarrow> (Inl e, n)
      | Inr url \<Rightarrow>
          (case fetch h \<lparr> req_method = GET, req_url = url,
                          req_query = [(''sort[0][field]'', fieldLatestUpdate cfg),
                                       (''sort[0][direction]'', ''desc'')],
                          req_headers = getHeaders cfg, req_body = None \<rparr> n of
             (Rejected e, n1) \<Rightarrow> (Inl (TypeError e), n1)
           | (Responded resp, n1) \<Rightarrow>
               (case throwIfNotOk rt resp of
                  Inl e \<Rightarrow> (Inl e, n1)
                | Inr u \<Rightarrow>
                    (case response_json resp of
                       None \<Rightarrow> (Inl SyntaxError, n1)
                     | Some payload \<Rightarrow>
                         (Inr (map (mapRecordToLead rt cfg) (records payload)), n1)))))"

text \<open>The field map that \<^verbatim>\<open>createLead\<close> builds before it sends anything: the object
  literal with its three computed keys, then the four calls of \<^verbatim>\<open>setIfConfigured\<close>.\<close>

definition newLeadFields :: "config \<Rightarrow> NewLeadInput \<Rightarrow> (string \<times> jsval) list" where
  "newLeadFields cfg input =
     (let f0 = set_prop (set_prop (set_prop [] (fieldName cfg) (JStr (input_name input)))
                           (fieldRepEmail cfg) (JStr (input_affiliateEmail input)))
                 (fieldStatus cfg) (JStr ''New'');
          f1 = setIfConfigured f0 (fieldLeadEmail cfg) (input_leadEmail input);
          f2 = setIfConfigured f1 (fieldLeadPhone cfg) (input_leadPhone input);
          f3 = setIfConfigured f2 (fieldNotes cfg) (input_notes input)
      in setIfConfigured f3 (fieldAffiliateComments cfg) (input_initialMessage input))"

text \<open>The document \<^verbatim>\<open>{ records: [{ fields }], typecast: true }\<close>.\<close>

definition createBody :: "(string \<times> jsval) list \<Rightarrow> jsval" where
  "createBody flds =
     JObj [(''records'', JArr [JObj [(''fields'', JObj flds)]]), (''typecast'', JBool True)]"

definition createLead ::
  "js_runtime \<Rightarrow> config \<Rightarrow> 'w remote \<Rightarrow> NewLeadInput \<Rightarrow> 'w net \<Rightarrow> (exn + Lead) \<times> 'w net" where
  "createLead rt cfg h input n =
     (let flds = newLeadFields cfg input
      in case getBaseUrl cfg of
           Inl e \<Rightarrow> (Inl e, n)
         | Inr url \<Rightarrow>
             (case fetch h \<lparr> req_method = POST, req_url = url, req_query = [],
                             req_headers = getHeaders cfg,
                             req_body = Some (createBody flds) \<rparr> n of
                (Rejected e, n1) \<Rightarrow> (Inl (TypeError e), n1)
              | (Responded resp, n1) \<Rightarrow>
                  (case throwIfNotOk rt resp of
                     Inl e \<Rightarrow> (Inl e, n1)
                   | Inr u \<Rightarrow>
                       (case response_json resp of
                          None \<Rightarrow> (Inl SyntaxError, n1)
                        | Some payload \<Rightarrow>
                            (case records payload of
                               [] \<Rightarrow> (Inl (Error ''Airtable did not return created lead.''), n1)
                             | created # others \<Rightarrow>
                                 (Inr (mapRecordToLead rt cfg created), n1))))))"

section \<open>Comment repository\<close>

definition sendAffiliateMessage ::
  "js_runtime \<Rightarrow> config \<Rightarrow> 'w remote \<Rightarrow> Lead \<Rightarrow> string \<Rightarrow> 'w net \<Rightarrow> (exn + unit) \<times> 'w net" where
  "sendAffiliateMessage rt cfg h lead message n =
     (let f0 = set_prop (set_prop [] (affiliateCommentsTextField cfg) (JStr message))
                 (affiliateCommentsLeadLinkField cfg) (JArr [JStr (lead_id lead)]);
          flds = (if affiliateCommentsAuthorField cfg \<noteq> []
                  then set_prop f0 (affiliateCommentsAuthorField cfg) (JStr ''You'') else f0)
      in case getCommentsBaseUrl cfg of
           Inl e \<Rightarrow> (Inl e, n)
         | Inr url \<Rightarrow>
             (case fetch h \<lparr> req_method = POST, req_url = url, req_query = [],
                             req_headers = getHeaders cfg,
                             req_body = Some (createBody flds) \<rparr> n of
                (Rejected e, n1) \<Rightarrow> (Inl (TypeError e), n1)
              | (Responded resp, n1) \<Rightarrow>
                  (case throwIfNotOk rt resp of
                     Inl e \<Rightarrow> (Inl e, n1)
                   | Inr u \<Rightarrow> (Inr (), n1))))"

text \<open>The candidate columns of a comment's text, and the text of a record:
  \<^verbatim>\<open>getFirstTextField(record.fields, [...]) || ''\<close>.\<close>

definition textCandidates :: "config \<Rightarrow> string list" where
  "textCandidates cfg =
     [affiliateCommentsTextField cfg, ''Comment'', ''Message'', ''Affiliate Comment'', ''Text'',
      ''Name'']"

definition commentText :: "js_runtime \<Rightarrow> config \<Rightarrow> AirtableRecord \<Rightarrow> string" where
  "commentText rt cfg r =
     or_default (getFirstTextField rt (record_fields r) (textCandidates cfg)) []"

text \<open>The function passed to \<^verbatim>\<open>map\<close> in \<^verbatim>\<open>fetchAffiliateCommentsForLead\<close>.\<close>

definition mapRecordToComment :: "js_runtime \<Rightarrow> config \<Rightarrow> AirtableRecord \<Rightarrow> AffiliateComment" where
  "mapRecordToComment rt cfg r =
     \<lparr> comment_id = record_id r,
       comment_text = commentText rt cfg r,
       comment_createdTime = dateTime rt (record_createdTime r),
       comment_author =
         (if affiliateCommentsAuthorField cfg \<noteq> []
          then parseText rt (get_prop (record_fields r) (affiliateCommentsAuthorField cfg))
          else getFirstTextField rt (record_fields r)
                 [''Created By'', ''Author'', ''From'', ''Sender'']) \<rparr>"

text \<open>
  \<^verbatim>\<open>Array.prototype.sort\<close> with a comparison function. The language asks for a stable sort and
  reads a result of \<^verbatim>\<open>NaN\<close> (\<open>None\<close>) as zero; the model is the stable insertion sort. Where
  the comparison function is not a consistent order (an invalid date makes it \<^verbatim>\<open>NaN\<close>) the
  language leaves the outcome to the engine; the model inserts there as everywhere, taking
  \<^verbatim>\<open>NaN\<close> for zero.
\<close>

fun sort_insert :: "('a \<Rightarrow> 'a \<Rightarrow> int option) \<Rightarrow> 'a \<Rightarrow> 'a list \<Rightarrow> 'a list" where
  "sort_insert cmp x [] = [x]"
| "sort_insert cmp x (y # ys) =
     (if (case cmp x y of Some d \<Rightarrow> d \<le> 0 | None \<Rightarrow> True) then x # y # ys
      else y # sort_insert cmp x ys)"

definition array_sort :: "('a \<Rightarrow> 'a \<Rightarrow> int option) \<Rightarrow> 'a list \<Rightarrow> 'a list" where
  "array_sort cmp xs = foldr (sort_insert cmp) xs []"

text \<open>\<^verbatim>\<open>(a, b) => a.createdTime.getTime() - b.createdTime.getTime()\<close>.\<close>

definition compareCreated :: "AffiliateComment \<Rightarrow> AffiliateComment \<Rightarrow> int option" where
  "compareCreated a b =
     (case (comment_createdTime a, comment_createdTime b) of
        (Some x, Some y) \<Rightarrow> Some (x - y)
      | _ \<Rightarrow> None)"

text \<open>The tail of \<^verbatim>\<open>fetchAffiliateCommentsForLead\<close>, from the records it has selected to the
  comments it returns: \<^verbatim>\<open>map\<close>, \<^verbatim>\<open>filter\<close> on the trimmed text, \<^verbatim>\<open>sort\<close>.\<close>

definition commentsOfRecords ::
  "js_runtime \<Rightarrow> config \<Rightarrow> AirtableRecord list \<Rightarrow> AffiliateComment list" where
  "commentsOfRecords rt cfg recs =
     array_sort compareCreated
       (filter (\<lambda>c. length (trim (comment_text c)) > 0) (map (mapRecordToComment rt cfg) recs))"

definition filterFormula :: "config \<Rightarrow> string \<Rightarrow> string" where
  \<open>filterFormula cfg leadId =
     ''FIND("'' @ leadId @ ''", ARRAYJOIN({'' @ affiliateCommentsLeadLinkField cfg @ ''}))''\<close>

definition fetchAffiliateCommentsForLead ::
  "js_runtime \<Rightarrow> config \<Rightarrow> 'w remote \<Rightarrow> string \<Rightarrow> 'w net
     \<Rightarrow> ((exn + AffiliateComment list) \<times> 'w net) option" where
  "fetchAffiliateCommentsForLead rt cfg h leadId n =
     (let formula = filterFormula cfg leadId
      in case getCommentsBaseUrl cfg of
           Inl e \<Rightarrow> Some (Inl e, n)
         | Inr baseUrl \<Rightarrow>
             (case fetchAllRecords rt cfg h baseUrl [(''filterByFormula'', formula)] n of
                None \<Rightarrow> None
              | Some (res, n1) \<Rightarrow>
                  (let recs = (case res of Inl e \<Rightarrow> [] | Inr rs \<Rightarrow> rs)
                   in if length recs = 0
                      then (case fetchAllRecords rt cfg h baseUrl [] n1 of
                              None \<Rightarrow> None
                            | Some (Inl e, n2) \<Rightarrow> Some (Inl e, n2)
                            | Some (Inr rs, n2) \<Rightarrow>
                                Some (Inr (commentsOfRecords rt cfg
                                             (filter (\<lambda>r. recordLinksToLead r leadId) rs)), n2))
                      else Some (Inr (commentsOfRecords rt cfg recs), n1))))"

section \<open>Example data\<close>

text \<open>
  A runtime for the evaluations below: the three conversions, tabulated on the strings and
  numbers of the examples with the values JavaScript computes for them. Off the table they
  give \<^verbatim>\<open>NaN\<close>, the empty string and an invalid date; the examples read them there for
  \<^verbatim>\<open>Number("n/a")\<close> and \<^verbatim>\<open>new Date("not a date")\<close> only, which are \<^verbatim>\<open>NaN\<close> and an
  invalid date in JavaScript too.
\<close>

definition example_rt :: js_runtime where
  "example_rt =
     \<lparr> toNumber =
         (\<lambda>s. case map_of [([], Finite 0), (''12'', Finite 12), (''-3'', Finite (- 3)),
                            (''Infinity'', PosInf)] s of
                Some x \<Rightarrow> x
              | None \<Rightarrow> NaN),
       numberToString =
         (\<lambda>x. case x of
                Finite q \<Rightarrow>
                  (if q = 0 then ''0'' else if q = 5 then ''5'' else if q = 42 then ''42'' else [])
              | NaN \<Rightarrow> ''NaN''
              | PosInf \<Rightarrow> ''Infinity''
              | NegInf \<Rightarrow> ''-Infinity''),
       dateTime =
         map_of [(''2024-02-28T23:59:59.000Z'', 1709164799000),
                 (''2024-03-01T10:00:00.000Z'', 1709287200000),
                 (''2024-03-02T09:30:00.000Z'', 1709371800000),
                 (''2024-03-03T08:15:00.000Z'', 1709453700000)] \<rparr>"

text \<open>An environment with the three required settings and nothing else, and the
  configuration read from it.\<close>

definition example_env :: env where
  "example_env =
     map_of [(''VITE_AIRTABLE_TOKEN'', ''patKEY''), (''VITE_AIRTABLE_BASE_ID'', ''appBASE''),
             (''VITE_AIRTABLE_TABLE_ID'', ''tblLEADS'')]"

definition example_config :: config where
  "example_config = loadConfig example_env"

text \<open>
  A remote store that answers the requests it receives with the entries of a script, one after
  the other, whatever is asked; once the script is used up a request fails in the network.
\<close>

definition scripted :: "fetch_result list remote" where
  "scripted rq script =
     (case script of
        [] \<Rightarrow> (Rejected ''Failed to fetch'', [])
      | x # rest \<Rightarrow> (x, rest))"

definition start :: "fetch_result list \<Rightarrow> fetch_result list net" where
  "start script = \<lparr> server = script, sent = [] \<rparr>"

text \<open>Two environments with one required setting missing: the credential in the first, the base
  identifier in the second.\<close>

definition env_without_token :: env where
  "env_without_token =
     map_of [(''VITE_AIRTABLE_BASE_ID'', ''appBASE''), (''VITE_AIRTABLE_TABLE_ID'', ''tblLEADS'')]"

definition env_without_base :: env where
  "env_without_base =
     map_of [(''VITE_AIRTABLE_TOKEN'', ''patKEY''), (''VITE_AIRTABLE_TABLE_ID'', ''tblLEADS'')]"

text \<open>A form submission with every optional field filled in, and a lead as the list shows it.\<close>

definition example_input :: NewLeadInput where
  "example_input =
     \<lparr> input_name = ''Ada Lovelace'', input_affiliateEmail = ''rep@example.com'',
       input_leadEmail = Some ''ada@example.com'', input_leadPhone = Some ''555-0100'',
       input_notes = Some ''met at the expo'', input_initialMessage = Some ''hello team'' \<rparr>"

definition example_lead :: Lead where
  "example_lead =
     \<lparr> lead_id = ''recLEAD1'', lead_name = ''Ada Lovelace'', lead_status = New,
       lead_createdTime = Some 1709287200000, lead_latestUpdate = None,
       lead_psRepEmail = Some ''rep@example.com'', lead_ccComments = Finite 0,
       lead_ccUpdateTime = None, lead_leadEmail = None, lead_leadPhone = None,
       lead_notes = None, lead_affiliateComments = None \<rparr>"

text \<open>An environment that also configures the four optional columns, and one that puts the
  notes into the column of the name.\<close>

definition full_env :: env where
  "full_env =
     map_of [(''VITE_AIRTABLE_TOKEN'', ''patKEY''), (''VITE_AIRTABLE_BASE_ID'', ''appBASE''),
             (''VITE_AIRTABLE_TABLE_ID'', ''tblLEADS''),
             (''VITE_AIRTABLE_LEAD_EMAIL_FIELD'', ''Lead Email''),
             (''VITE_AIRTABLE_LEAD_PHONE_FIELD'', ''Lead Phone''),
             (''VITE_AIRTABLE_NOTES_FIELD'', ''Notes''),
             (''VITE_AIRTABLE_AFFILIATE_COMMENTS_FIELD'', ''Affiliate Comments'')]"

definition colliding_env :: env where
  "colliding_env =
     map_of [(''VITE_AIRTABLE_TOKEN'', ''patKEY''), (''VITE_AIRTABLE_BASE_ID'', ''appBASE''),
             (''VITE_AIRTABLE_TABLE_ID'', ''tblLEADS''),
             (''VITE_AIRTABLE_LEAD_EMAIL_FIELD'', ''Lead Email''),
             (''VITE_AIRTABLE_LEAD_PHONE_FIELD'', ''Lead Phone''),
             (''VITE_AIRTABLE_NOTES_FIELD'', ''Name''),
             (''VITE_AIRTABLE_AFFILIATE_COMMENTS_FIELD'', ''Affiliate Comments'')]"

text \<open>The record the remote store creates from a field map: an identifier and a creation time
  of its own, and the fields as they were sent.\<close>

definition createdRecord :: "(string \<times> jsval) list \<Rightarrow> AirtableRecord" where
  "createdRecord flds =
     \<lparr> record_id = ''recNEW1'', record_createdTime = ''2024-03-01T10:00:00.000Z'',
       record_fields = flds \<rparr>"


text \<open>The answer of the store that carries a page: a success status with a payload.\<close>

definition okPage :: "Payload \<Rightarrow> fetch_result" where
  "okPage p = Responded (Success (Some p))"

text \<open>
  Four records of the comments table. The first links to the lead \<^verbatim>\<open>recLEAD1\<close> through an
  array of record identifiers, the second through a plain string that contains the
  identifier, the third belongs to another lead, and the fourth links through an array of
  objects but has a text of blanks only.
\<close>

definition example_comment_records :: "AirtableRecord list" where
  "example_comment_records =
     [\<lparr> record_id = ''recC1'', record_createdTime = ''2024-03-02T09:30:00.000Z'',
        record_fields = [(''Comment'', JStr ''second''), (''Lead'', JArr [JStr ''recLEAD1''])] \<rparr>,
      \<lparr> record_id = ''recC2'', record_createdTime = ''2024-03-01T10:00:00.000Z'',
        record_fields = [(''Comment'', JStr ''first''),
                         (''Lead Ref'', JStr ''lead recLEAD1 (Ada)'')] \<rparr>,
      \<lparr> record_id = ''recC3'', record_createdTime = ''2024-03-03T08:15:00.000Z'',
        record_fields = [(''Comment'', JStr ''other lead''), (''Lead'', JArr [JStr ''recLEAD2''])] \<rparr>,
      \<lparr> record_id = ''recC4'', record_createdTime = ''2024-02-28T23:59:59.000Z'',
        record_fields = [(''Comment'', JStr ''   ''),
                         (''Lead'', JArr [JObj [(''id'', JStr ''recLEAD1''),
                                                (''name'', JStr ''Ada'')]])] \<rparr>]"

text \<open>
  Three comments of the lead \<^verbatim>\<open>recLEAD1\<close> in the order the store returns them: one of 3 March,
  one whose creation time is not a date, one of 1 March.
\<close>

definition undated_comment_records :: "AirtableRecord list" where
  "undated_comment_records =
     [\<lparr> record_id = ''recD1'', record_createdTime = ''2024-03-03T08:15:00.000Z'',
        record_fields = [(''Comment'', JStr ''third of March''), (''Lead'', JArr [JStr ''recLEAD1''])] \<rparr>,
      \<lparr> record_id = ''recD2'', record_createdTime = ''not a date'',
        record_fields = [(''Comment'', JStr ''undated''), (''Lead'', JArr [JStr ''recLEAD1''])] \<rparr>,
      \<lparr> record_id = ''recD3'', record_createdTime = ''2024-03-01T10:00:00.000Z'',
        record_fields = [(''Comment'', JStr ''first of March''), (''Lead'', JArr [JStr ''recLEAD1''])] \<rparr>]"

text \<open>
  Four comments of the lead \<^verbatim>\<open>recLEAD1\<close>: one of 2 March, one whose text is a no-break space
  (U+00A0) only, one of 1 March whose text has white space at both ends, and one whose text
  is a space, a line separator (U+2028) and a byte order mark (U+FEFF).
\<close>

definition blank_comment_records :: "AirtableRecord list" where
  "blank_comment_records =
     [\<lparr> record_id = ''recB1'', record_createdTime = ''2024-03-02T09:30:00.000Z'',
        record_fields = [(''Comment'', JStr ''second'')] \<rparr>,
      \<lparr> record_id = ''recB2'', record_createdTime = ''2024-03-03T08:15:00.000Z'',
        record_fields = [(''Comment'', JStr [CHR 0xC2, CHR 0xA0])] \<rparr>,
      \<lparr> record_id = ''recB3'', record_createdTime = ''2024-03-01T10:00:00.000Z'',
        record_fields = [(''Comment'', JStr ''  first '')] \<rparr>,
      \<lparr> record_id = ''recB4'', record_createdTime = ''2024-02-28T23:59:59.000Z'',
        record_fields = [(''Comment'', JStr [CHR 0x20, CHR 0xE2, CHR 0x80, CHR 0xA8,
                                             CHR 0xEF, CHR 0xBB, CHR 0xBF])] \<rparr>]"



section \<open>Configuration resolver: the messaging switch\<close>

lemma or_default_nonempty: "d \<noteq> [] \<Longrightarrow> or_default v d \<noteq> []"
  by (cases v) (simp_all add: or_default_def isSet_def)

text \<open>
  C10. Whatever the environment holds, \<^verbatim>\<open>isMessagingConfigured()\<close> is true: the identifier of
  the comments table, the lead-link column and the comment-text column are each read with a
  non-empty default, so none of the three values it tests can be empty.
\<close>

theorem isMessagingConfigured_always: "isMessagingConfigured (loadConfig e)"
  by (simp add: isMessagingConfigured_def loadConfig_def or_default_nonempty)

section \<open>Status decoding\<close>

lemma normalizeStatus_lower:
  "normalizeStatus (JStr s) =
     (if toLowerCase s = ''new'' then New
      else if toLowerCase s = ''contacted'' then Contacted
      else if toLowerCase s = ''qualified'' then Qualified
      else if toLowerCase s = ''converted'' then Converted
      else if toLowerCase s = ''lost'' then Lost
      else Unknown)"
  by (simp add: normalizeStatus_def Let_def)

text \<open>
  C2, as stated, asks that \<^verbatim>\<open>"NEW"\<close>, \<^verbatim>\<open>"new"\<close> and the untrimmed \<^verbatim>\<open>"New "\<close> decode to the
  same status. The decoder does not trim: the first two are \<open>new\<close>, the third is \<open>unknown\<close>.
\<close>

theorem normalizeStatus_untrimmed_counterexample:
  "normalizeStatus (JStr ''NEW'') = New \<and> normalizeStatus (JStr ''new'') = New
   \<and> normalizeStatus (JStr ''New '') = Unknown
   \<and> normalizeStatus (JStr ''New '') \<noteq> normalizeStatus (JStr ''NEW'')"
  by (simp add: normalizeStatus_lower toLowerCase_def lower_char_def)

text \<open>
  C2, amended. Decoding a status lower-cases a string and compares it, untrimmed, with the
  five literals: two strings that agree after lower-casing decode alike; a string decodes to
  one of the five statuses exactly when its lower-cased form is that literal, and to
  \<open>unknown\<close> exactly when it is none of them; every value that is not a string, and the empty
  string, decode to \<open>unknown\<close>. So \<^verbatim>\<open>"NEW"\<close> and \<^verbatim>\<open>"new"\<close> decode to \<open>new\<close>, and \<^verbatim>\<open>"New "\<close>,
  with its trailing space, to \<open>unknown\<close>.
\<close>

theorem normalizeStatus_case_insensitive:
  "(toLowerCase s = toLowerCase t \<longrightarrow> normalizeStatus (JStr s) = normalizeStatus (JStr t))
   \<and> (normalizeStatus (JStr s) = New \<longleftrightarrow> toLowerCase s = ''new'')
   \<and> (normalizeStatus (JStr s) = Contacted \<longleftrightarrow> toLowerCase s = ''contacted'')
   \<and> (normalizeStatus (JStr s) = Qualified \<longleftrightarrow> toLowerCase s = ''qualified'')
   \<and> (normalizeStatus (JStr s) = Converted \<longleftrightarrow> toLowerCase s = ''converted'')
   \<and> (normalizeStatus (JStr s) = Lost \<longleftrightarrow> toLowerCase s = ''lost'')
   \<and> (normalizeStatus (JStr s) = Unknown \<longleftrightarrow>
        toLowerCase s \<notin> {''new'', ''contacted'', ''qualified'', ''converted'', ''lost''})
   \<and> normalizeStatus JUndefined = Unknown \<and> normalizeStatus JNull = Unknown
   \<and> normalizeStatus (JBool b) = Unknown \<and> normalizeStatus (JNum x) = Unknown
   \<and> normalizeStatus (JArr xs) = Unknown \<and> normalizeStatus (JObj kvs) = Unknown
   \<and> normalizeStatus (JStr []) = Unknown
   \<and> normalizeStatus (JStr ''NEW'') = New \<and> normalizeStatus (JStr ''new'') = New
   \<and> normalizeStatus (JStr ''New '') = Unknown"
proof -
  have lit: "normalizeStatus (JStr ''NEW'') = New \<and> normalizeStatus (JStr ''new'') = New
      \<and> normalizeStatus (JStr ''New '') = Unknown \<and> normalizeStatus (JStr []) = Unknown"
    by (simp add: normalizeStatus_lower toLowerCase_def lower_char_def)
  have other: "normalizeStatus JUndefined = Unknown \<and> normalizeStatus JNull = Unknown
      \<and> normalizeStatus (JBool b) = Unknown \<and> normalizeStatus (JNum x) = Unknown
      \<and> normalizeStatus (JArr xs) = Unknown \<and> normalizeStatus (JObj kvs) = Unknown"
    by (simp add: normalizeStatus_def)
  have str: "(toLowerCase s = toLowerCase t \<longrightarrow> normalizeStatus (JStr s) = normalizeStatus (JStr t))
      \<and> (normalizeStatus (JStr s) = New \<longleftrightarrow> toLowerCase s = ''new'')
      \<and> (normalizeStatus (JStr s) = Contacted \<longleftrightarrow> toLowerCase s = ''contacted'')
      \<and> (normalizeStatus (JStr s) = Qualified \<longleftrightarrow> toLowerCase s = ''qualified'')
      \<and> (normalizeStatus (JStr s) = Converted \<longleftrightarrow> toLowerCase s = ''converted'')
      \<and> (normalizeStatus (JStr s) = Lost \<longleftrightarrow> toLowerCase s = ''lost'')
      \<and> (normalizeStatus (JStr s) = Unknown \<longleftrightarrow>
           toLowerCase s \<notin> {''new'', ''contacted'', ''qualified'', ''converted'', ''lost''})"
    by (simp add: normalizeStatus_lower)
  from lit other str show ?thesis by blast
qed

theorem normalizeStatus_case_insensitive_witness:
  "toLowerCase ''ConTacted'' = toLowerCase ''CONTACTED''
   \<and> normalizeStatus (JStr ''ConTacted'') = normalizeStatus (JStr ''CONTACTED'')"
proof -
  have l1: "toLowerCase ''ConTacted'' = ''contacted''"
    by (simp add: toLowerCase_def lower_char_def)
  have l2: "toLowerCase ''CONTACTED'' = ''contacted''"
    by (simp add: toLowerCase_def lower_char_def)
  have h: "toLowerCase ''ConTacted'' = toLowerCase ''CONTACTED''"
    by (simp add: l1 l2)
  from normalizeStatus_case_insensitive
         [of "''ConTacted''" "''CONTACTED''" True NaN "[]" "[]", THEN conjunct1, THEN mp, OF h] h
  show ?thesis by simp
qed

section \<open>The example configuration\<close>

lemma example_config_simps:
  "token example_config = Some ''patKEY''"
  "baseId example_config = Some ''appBASE''"
  "tableId example_config = Some ''tblLEADS''"
  "fieldName example_config = ''Name''"
  "fieldRepEmail example_config = ''PS Rep Email''"
  "fieldStatus example_config = ''Status''"
  "fieldLatestUpdate example_config = ''Latest Update''"
  "fieldCcComments example_config = ''CC Comments''"
  "fieldCcUpdateTime example_config = ''CC Update Time''"
  "fieldLeadEmail example_config = None"
  "fieldLeadPhone example_config = None"
  "fieldNotes example_config = None"
  "fieldAffiliateComments example_config = None"
  "affiliateCommentsTableId example_config = ''tblrMlNIChN4hKVkM''"
  "affiliateCommentsLeadLinkField example_config = ''Lead''"
  "affiliateCommentsTextField example_config = ''Comment''"
  "affiliateCommentsAuthorField example_config = ''Created By''"
  by (simp_all add: example_config_def loadConfig_def example_env_def or_default_def isSet_def)

section \<open>Numeric decoding\<close>

lemma lead_ccComments_map:
  "lead_ccComments (mapRecordToLead rt cfg r) =
     parseNumber rt (get_prop (record_fields r) (fieldCcComments cfg)) (Finite 0)"
  by (simp add: mapRecordToLead_def Let_def)

text \<open>
  C5, as stated, promises a non-negative integer for the partner-comment count. The decoder
  returns a finite number as it is: a record whose count is \<open>-3\<close> decodes to \<open>-3\<close>, and one
  whose count is \<open>3/2\<close> decodes to \<open>3/2\<close>.
\<close>

theorem ccComments_nonneg_int_counterexample:
  "lead_ccComments (mapRecordToLead example_rt example_config
      \<lparr> record_id = ''rec1'', record_createdTime = ''2024-03-01T10:00:00.000Z'',
        record_fields = [(''Name'', JStr ''Ada''), (''CC Comments'', JNum (Finite (- 3)))] \<rparr>)
     = Finite (- 3)
   \<and> (- 3 :: rat) < 0
   \<and> lead_ccComments (mapRecordToLead example_rt example_config
      \<lparr> record_id = ''rec2'', record_createdTime = ''2024-03-01T10:00:00.000Z'',
        record_fields = [(''Name'', JStr ''Bob''), (''CC Comments'', JNum (Finite (3 / 2)))] \<rparr>)
     = Finite (3 / 2)
   \<and> (3 / 2 :: rat) \<notin> \<int>"
proof -
  have "(3 / 2 :: rat) \<notin> \<int>"
  proof
    assume "(3 / 2 :: rat) \<in> \<int>"
    then obtain k :: int where "(3 / 2 :: rat) = of_int k" by (auto elim: Ints_cases)
    then have "(3 :: rat) = of_int (2 * k)" by simp
    then have "(3 :: int) = 2 * k" by (metis of_int_eq_iff of_int_numeral)
    then show False by presburger
  qed
  then show ?thesis
    by (simp add: lead_ccComments_map example_config_simps get_prop_def parseNumber_def)
qed

text \<open>
  C5, amended. For every raw value of the partner-comment count field, decoding a lead yields
  a finite number for that field, not necessarily an integer and not necessarily
  non-negative: a finite number decodes to itself; a string decodes to \<^verbatim>\<open>Number(s)\<close> when
  that is finite and to 0 otherwise; \<^verbatim>\<open>NaN\<close>, the infinities, an absent value and every value
  that is neither a number nor a string decode to 0. The decoder is a total function: it has
  no failing branch.
\<close>

theorem ccComments_finite:
  "isFinite (lead_ccComments (mapRecordToLead rt cfg r))
   \<and> lead_ccComments (mapRecordToLead rt cfg r) =
       parseNumber rt (get_prop (record_fields r) (fieldCcComments cfg)) (Finite 0)
   \<and> parseNumber rt (JNum (Finite q)) (Finite 0) = Finite q
   \<and> parseNumber rt (JNum NaN) (Finite 0) = Finite 0
   \<and> parseNumber rt (JNum PosInf) (Finite 0) = Finite 0
   \<and> parseNumber rt (JNum NegInf) (Finite 0) = Finite 0
   \<and> parseNumber rt (JStr s) (Finite 0) =
       (if isFinite (toNumber rt s) then toNumber rt s else Finite 0)
   \<and> parseNumber rt JUndefined (Finite 0) = Finite 0
   \<and> parseNumber rt JNull (Finite 0) = Finite 0
   \<and> parseNumber rt (JBool b) (Finite 0) = Finite 0
   \<and> parseNumber rt (JArr xs) (Finite 0) = Finite 0
   \<and> parseNumber rt (JObj kvs) (Finite 0) = Finite 0"
proof -
  have "isFinite (parseNumber rt v (Finite 0))" for v
    by (cases v) (simp_all add: parseNumber_def Let_def)
  then show ?thesis
    by (simp add: lead_ccComments_map) (simp add: parseNumber_def Let_def)
qed

theorem ccComments_finite_witness:
  "lead_ccComments (mapRecordToLead example_rt example_config
      \<lparr> record_id = ''rec1'', record_createdTime = ''2024-03-01T10:00:00.000Z'',
        record_fields = [(''CC Comments'', JStr ''12'')] \<rparr>) = Finite 12
   \<and> lead_ccComments (mapRecordToLead example_rt example_config
      \<lparr> record_id = ''rec1'', record_createdTime = ''2024-03-01T10:00:00.000Z'',
        record_fields = [(''CC Comments'', JStr ''Infinity'')] \<rparr>) = Finite 0
   \<and> lead_ccComments (mapRecordToLead example_rt example_config
      \<lparr> record_id = ''rec1'', record_createdTime = ''2024-03-01T10:00:00.000Z'',
        record_fields = [(''CC Comments'', JStr ''n/a'')] \<rparr>) = Finite 0
   \<and> lead_ccComments (mapRecordToLead example_rt example_config
      \<lparr> record_id = ''rec1'', record_createdTime = ''2024-03-01T10:00:00.000Z'',
        record_fields = [] \<rparr>) = Finite 0"
  using ccComments_finite [of example_rt example_config _ 0 "''12''" True "[]" "[]"]
    ccComments_finite [of example_rt example_config _ 0 "''Infinity''" True "[]" "[]"]
    ccComments_finite [of example_rt example_config _ 0 "''n/a''" True "[]" "[]"]
  by (simp add: example_config_simps get_prop_def example_rt_def)

section \<open>Comment text resolution\<close>



lemma getFirstTextField_hit:
  "parseText rt (get_prop flds c) = Some t \<Longrightarrow> getFirstTextField rt flds (c # cs) = Some t"
  by simp

lemma set_sort_insert: "set (sort_insert cmp x ys) = insert x (set ys)"
  by (induction ys) auto

lemma set_array_sort: "set (array_sort cmp xs) = set xs"
  by (induction xs) (simp_all add: array_sort_def set_sort_insert)

lemma mset_sort_insert: "mset (sort_insert cmp x ys) = add_mset x (mset ys)"
  by (induction ys) auto

lemma mset_array_sort: "mset (array_sort cmp xs) = mset xs"
  by (induction xs) (simp_all add: array_sort_def mset_sort_insert)

lemma commentsOfRecords_text:
  "c \<in> set (commentsOfRecords rt cfg recs) \<Longrightarrow> trim (comment_text c) \<noteq> []"
  by (auto simp: commentsOfRecords_def set_array_sort)

lemma stripLeading_Nil: "stripLeading ws [] = []"
proof -
  have "find (\<lambda>w. w \<noteq> [] \<and> prefix w []) ws = None"
    by (induction ws) auto
  then show ?thesis by (subst stripLeading.simps) simp
qed


lemma trim_examples:
  "trim ''first'' = ''first''"
  "trim ''second'' = ''second''"
  "trim ''other lead'' = ''other lead''"
  "trim ''   '' = []"
  by code_simp+






section \<open>Configuration errors\<close>

lemma getBaseUrl_missing:
  "\<not> isSet (token cfg) \<or> \<not> isSet (baseId cfg) \<or> \<not> isSet (tableId cfg) \<Longrightarrow>
   getBaseUrl cfg = Inl (Error ''Airtable config missing. Set VITE_AIRTABLE_TOKEN, VITE_AIRTABLE_BASE_ID, and VITE_AIRTABLE_TABLE_ID.'')"
  by (simp add: getBaseUrl_def)

lemma getCommentsBaseUrl_missing:
  "\<not> isSet (token cfg) \<or> \<not> isSet (baseId cfg) \<Longrightarrow>
   getCommentsBaseUrl cfg = Inl (Error ''Airtable comments config missing. Set VITE_AIRTABLE_TOKEN, VITE_AIRTABLE_BASE_ID, and VITE_AIRTABLE_AFFILIATE_COMMENTS_TABLE_ID.'')"
  by (auto simp add: getCommentsBaseUrl_def)

lemma loadConfig_required:
  "token (loadConfig e) = e ''VITE_AIRTABLE_TOKEN''"
  "baseId (loadConfig e) = e ''VITE_AIRTABLE_BASE_ID''"
  "tableId (loadConfig e) = e ''VITE_AIRTABLE_TABLE_ID''"
  by (simp_all add: loadConfig_def)

text \<open>
  C9, amended. When the credential, the base identifier or the lead table identifier is
  absent or empty, \<^verbatim>\<open>fetchLeads\<close> and \<^verbatim>\<open>createLead\<close> fail with the one message of
  \<^verbatim>\<open>getBaseUrl\<close>, which names all three settings, and the network is as it was: no request
  has been issued. When the credential or the base identifier is absent or empty,
  \<^verbatim>\<open>sendAffiliateMessage\<close> and \<^verbatim>\<open>fetchAffiliateCommentsForLead\<close> fail in the same way with
  the one message of \<^verbatim>\<open>getCommentsBaseUrl\<close>, which names the credential, the base identifier
  and the comments table identifier.
\<close>

theorem config_missing_fails_before_network:
  "(\<not> isSet (e ''VITE_AIRTABLE_TOKEN'') \<or> \<not> isSet (e ''VITE_AIRTABLE_BASE_ID'')
      \<or> \<not> isSet (e ''VITE_AIRTABLE_TABLE_ID'')
     \<longrightarrow> fetchLeads rt (loadConfig e) h n =
           (Inl (Error ''Airtable config missing. Set VITE_AIRTABLE_TOKEN, VITE_AIRTABLE_BASE_ID, and VITE_AIRTABLE_TABLE_ID.''), n)
         \<and> createLead rt (loadConfig e) h input n =
           (Inl (Error ''Airtable config missing. Set VITE_AIRTABLE_TOKEN, VITE_AIRTABLE_BASE_ID, and VITE_AIRTABLE_TABLE_ID.''), n))
   \<and> (\<not> isSet (e ''VITE_AIRTABLE_TOKEN'') \<or> \<not> isSet (e ''VITE_AIRTABLE_BASE_ID'')
     \<longrightarrow> sendAffiliateMessage rt (loadConfig e) h lead message n =
           (Inl (Error ''Airtable comments config missing. Set VITE_AIRTABLE_TOKEN, VITE_AIRTABLE_BASE_ID, and VITE_AIRTABLE_AFFILIATE_COMMENTS_TABLE_ID.''), n)
         \<and> fetchAffiliateCommentsForLead rt (loadConfig e) h leadId n =
           Some (Inl (Error ''Airtable comments config missing. Set VITE_AIRTABLE_TOKEN, VITE_AIRTABLE_BASE_ID, and VITE_AIRTABLE_AFFILIATE_COMMENTS_TABLE_ID.''), n))"
proof -
  have a: "fetchLeads rt cfg h n = (Inl (Error ''Airtable config missing. Set VITE_AIRTABLE_TOKEN, VITE_AIRTABLE_BASE_ID, and VITE_AIRTABLE_TABLE_ID.''), n)
         \<and> createLead rt cfg h input n =
           (Inl (Error ''Airtable config missing. Set VITE_AIRTABLE_TOKEN, VITE_AIRTABLE_BASE_ID, and VITE_AIRTABLE_TABLE_ID.''), n)"
    if "\<not> isSet (token cfg) \<or> \<not> isSet (baseId cfg) \<or> \<not> isSet (tableId cfg)" for cfg
    using getBaseUrl_missing [OF that]
    by (simp add: fetchLeads_def createLead_def Let_def)
  have b: "sendAffiliateMessage rt cfg h lead message n =
           (Inl (Error ''Airtable comments config missing. Set VITE_AIRTABLE_TOKEN, VITE_AIRTABLE_BASE_ID, and VITE_AIRTABLE_AFFILIATE_COMMENTS_TABLE_ID.''), n)
         \<and> fetchAffiliateCommentsForLead rt cfg h leadId n =
           Some (Inl (Error ''Airtable comments config missing. Set VITE_AIRTABLE_TOKEN, VITE_AIRTABLE_BASE_ID, and VITE_AIRTABLE_AFFILIATE_COMMENTS_TABLE_ID.''), n)"
    if "\<not> isSet (token cfg) \<or> \<not> isSet (baseId cfg)" for cfg
    using getCommentsBaseUrl_missing [OF that]
    by (simp add: sendAffiliateMessage_def fetchAffiliateCommentsForLead_def Let_def)
  show ?thesis
    using a [of "loadConfig e"] b [of "loadConfig e"]
    by (simp only: loadConfig_required) blast
qed


text \<open>
  C9, as stated, asks for a message that identifies exactly which setting is missing. The
  message is the same whichever setting is missing: without the credential and without the
  base identifier \<^verbatim>\<open>fetchLeads\<close> fails with the same text, and that text names the base and
  table identifiers also when both are set.
\<close>

theorem config_error_names_all_counterexample:
  "fetchLeads example_rt (loadConfig env_without_token) scripted (start []) =
     (Inl (Error ''Airtable config missing. Set VITE_AIRTABLE_TOKEN, VITE_AIRTABLE_BASE_ID, and VITE_AIRTABLE_TABLE_ID.''), start [])
   \<and> fetchLeads example_rt (loadConfig env_without_base) scripted (start []) =
     (Inl (Error ''Airtable config missing. Set VITE_AIRTABLE_TOKEN, VITE_AIRTABLE_BASE_ID, and VITE_AIRTABLE_TABLE_ID.''), start [])
   \<and> isSet (baseId (loadConfig env_without_token))
   \<and> isSet (tableId (loadConfig env_without_token))
   \<and> str_includes ''Airtable config missing. Set VITE_AIRTABLE_TOKEN, VITE_AIRTABLE_BASE_ID, and VITE_AIRTABLE_TABLE_ID.'' ''VITE_AIRTABLE_BASE_ID''
   \<and> str_includes ''Airtable config missing. Set VITE_AIRTABLE_TOKEN, VITE_AIRTABLE_BASE_ID, and VITE_AIRTABLE_TABLE_ID.'' ''VITE_AIRTABLE_TABLE_ID''"
  by (simp add: fetchLeads_def getBaseUrl_def loadConfig_required env_without_token_def
      env_without_base_def isSet_def)

theorem config_missing_fails_before_network_witness:
  "\<not> isSet (env_without_token ''VITE_AIRTABLE_TOKEN'')
   \<and> fetchLeads example_rt (loadConfig env_without_token) scripted (start []) =
       (Inl (Error ''Airtable config missing. Set VITE_AIRTABLE_TOKEN, VITE_AIRTABLE_BASE_ID, and VITE_AIRTABLE_TABLE_ID.''), start [])
   \<and> createLead example_rt (loadConfig env_without_token) scripted example_input (start []) =
       (Inl (Error ''Airtable config missing. Set VITE_AIRTABLE_TOKEN, VITE_AIRTABLE_BASE_ID, and VITE_AIRTABLE_TABLE_ID.''), start [])
   \<and> sendAffiliateMessage example_rt (loadConfig env_without_token) scripted example_lead ''hi'' (start []) =
       (Inl (Error ''Airtable comments config missing. Set VITE_AIRTABLE_TOKEN, VITE_AIRTABLE_BASE_ID, and VITE_AIRTABLE_AFFILIATE_COMMENTS_TABLE_ID.''), start [])
   \<and> fetchAffiliateCommentsForLead example_rt (loadConfig env_without_token) scripted ''recLEAD1'' (start []) =
       Some (Inl (Error ''Airtable comments config missing. Set VITE_AIRTABLE_TOKEN, VITE_AIRTABLE_BASE_ID, and VITE_AIRTABLE_AFFILIATE_COMMENTS_TABLE_ID.''), start [])
   \<and> sent (start []) = ([] :: request list)"
proof -
  have h: "\<not> isSet (env_without_token ''VITE_AIRTABLE_TOKEN'')"
    by (simp add: env_without_token_def isSet_def)
  from h config_missing_fails_before_network
         [of env_without_token example_rt scripted "start []" example_input example_lead "''hi''" "''recLEAD1''"]
  show ?thesis by (simp add: start_def)
qed

section \<open>Encoding a new lead and decoding the created record\<close>

lemma get_set_prop_same: "get_prop (set_prop flds k v) k = v"
  by (induction flds k v rule: set_prop.induct) (simp_all add: get_prop_def)

lemma get_set_prop_other: "k' \<noteq> k \<Longrightarrow> get_prop (set_prop flds k v) k' = get_prop flds k'"
  by (induction flds k v rule: set_prop.induct) (simp_all add: get_prop_def)

lemma keys_set_prop: "fst ` set (set_prop flds k v) = insert k (fst ` set flds)"
  by (induction flds k v rule: set_prop.induct) auto

lemma get_setIfConfigured_other:
  "key \<noteq> Some k' \<Longrightarrow> get_prop (setIfConfigured flds key v) k' = get_prop flds k'"
  by (cases key) (auto simp: setIfConfigured_def isSet_def get_set_prop_other)

lemma get_setIfConfigured_other':
  "Some k' \<noteq> key \<Longrightarrow> get_prop (setIfConfigured flds key v) k' = get_prop flds k'"
  using get_setIfConfigured_other [of key k' flds v] by auto

lemma get_set_prop_other': "k \<noteq> k' \<Longrightarrow> get_prop (set_prop flds k v) k' = get_prop flds k'"
  using get_set_prop_other [of k' k flds v] by auto

lemma keys_setIfConfigured:
  "fst ` set (setIfConfigured flds key v) =
     (if isSet key \<and> isSet v then insert (the key) (fst ` set flds) else fst ` set flds)"
  by (simp add: setIfConfigured_def keys_set_prop)

lemma newLeadFields_get:
  assumes "distinct [fieldName cfg, fieldRepEmail cfg, fieldStatus cfg]"
    and "set [fieldLeadEmail cfg, fieldLeadPhone cfg, fieldNotes cfg, fieldAffiliateComments cfg]
           \<inter> {Some (fieldName cfg), Some (fieldRepEmail cfg), Some (fieldStatus cfg)} = {}"
  shows "get_prop (newLeadFields cfg input) (fieldName cfg) = JStr (input_name input)"
    and "get_prop (newLeadFields cfg input) (fieldRepEmail cfg) = JStr (input_affiliateEmail input)"
    and "get_prop (newLeadFields cfg input) (fieldStatus cfg) = JStr ''New''"
  using assms
  by (simp_all add: newLeadFields_def Let_def get_setIfConfigured_other get_setIfConfigured_other'
      get_set_prop_other get_set_prop_other' get_set_prop_same del: set_prop.simps)

lemma normalizeStatus_New: "normalizeStatus (JStr ''New'') = New"
  by (simp add: normalizeStatus_lower toLowerCase_def lower_char_def)

lemma full_config_simps:
  "fieldName (loadConfig full_env) = ''Name''"
  "fieldRepEmail (loadConfig full_env) = ''PS Rep Email''"
  "fieldStatus (loadConfig full_env) = ''Status''"
  "fieldLeadEmail (loadConfig full_env) = Some ''Lead Email''"
  "fieldLeadPhone (loadConfig full_env) = Some ''Lead Phone''"
  "fieldNotes (loadConfig full_env) = Some ''Notes''"
  "fieldAffiliateComments (loadConfig full_env) = Some ''Affiliate Comments''"
  by (simp_all add: loadConfig_def full_env_def or_default_def isSet_def)

lemma colliding_config_simps:
  "fieldName (loadConfig colliding_env) = ''Name''"
  "fieldRepEmail (loadConfig colliding_env) = ''PS Rep Email''"
  "fieldStatus (loadConfig colliding_env) = ''Status''"
  "fieldLeadEmail (loadConfig colliding_env) = Some ''Lead Email''"
  "fieldLeadPhone (loadConfig colliding_env) = Some ''Lead Phone''"
  "fieldNotes (loadConfig colliding_env) = Some ''Name''"
  "fieldAffiliateComments (loadConfig colliding_env) = Some ''Affiliate Comments''"
  by (simp_all add: loadConfig_def colliding_env_def or_default_def isSet_def)

lemma lead_of_record:
  "lead_name (mapRecordToLead rt cfg r) =
     or_default (parseText rt (get_prop (record_fields r) (fieldName cfg))) ''Unnamed Lead''"
  "lead_psRepEmail (mapRecordToLead rt cfg r) =
     parseText rt (get_prop (record_fields r) (fieldRepEmail cfg))"
  "lead_status (mapRecordToLead rt cfg r) = normalizeStatus (get_prop (record_fields r) (fieldStatus cfg))"
  by (simp_all add: mapRecordToLead_def Let_def)

lemma newLeadFields_keys:
  "set (map fst (newLeadFields cfg input)) =
     {fieldName cfg, fieldRepEmail cfg, fieldStatus cfg}
     \<union> {the k | k v. (k, v) \<in> {(fieldLeadEmail cfg, input_leadEmail input),
                                (fieldLeadPhone cfg, input_leadPhone input),
                                (fieldNotes cfg, input_notes input),
                                (fieldAffiliateComments cfg, input_initialMessage input)}
                      \<and> isSet k \<and> isSet v}"
  by (auto simp add: newLeadFields_def Let_def keys_setIfConfigured keys_set_prop)

lemma createLead_sent:
  "getBaseUrl cfg = Inr url \<Longrightarrow>
   sent (snd (createLead rt cfg h input n)) =
     sent n @ [\<lparr> req_method = POST, req_url = url, req_query = [], req_headers = getHeaders cfg,
                 req_body = Some (createBody (newLeadFields cfg input)) \<rparr>]"
  by (auto simp: createLead_def Let_def fetch_def split: prod.splits fetch_result.splits
      sum.splits option.splits list.splits)


text \<open>
  C8, as stated, holds for every input with all optional fields filled in and all optional
  columns configured. It fails when an optional column is configured with the name of the
  name column: the notes overwrite the name in the outgoing field map, and the decoded name
  is the notes. It also fails for an empty name, which decodes to \<^verbatim>\<open>Unnamed Lead\<close>.
\<close>

theorem roundtrip_collision_counterexample:
  "lead_name (mapRecordToLead example_rt (loadConfig colliding_env)
       (createdRecord (newLeadFields (loadConfig colliding_env) example_input)))
     = ''met at the expo''
   \<and> input_name example_input = ''Ada Lovelace''
   \<and> lead_name (mapRecordToLead example_rt (loadConfig full_env)
       (createdRecord (newLeadFields (loadConfig full_env) (example_input \<lparr> input_name := [] \<rparr>))))
     = ''Unnamed Lead''"
  by (simp add: lead_of_record createdRecord_def newLeadFields_def Let_def setIfConfigured_def
      isSet_def colliding_config_simps full_config_simps example_input_def get_prop_def
      or_default_def)

text \<open>
  C8, amended. When the name, rep-email and status columns are pairwise distinct and none of
  them is also configured as an optional column, and the name is not empty, then decoding a
  created record that carries the outgoing field map recovers the name, the rep email and the
  status \<open>new\<close>, the decoded form of the literal \<^verbatim>\<open>"New"\<close> that is sent. The keys of the
  outgoing field map are the three columns that are always sent and the optional columns that
  are configured and whose input is not empty, and no others; that map is the body of the one
  request \<^verbatim>\<open>createLead\<close> issues.
\<close>

theorem roundtrip_name_email_status:
  assumes "distinct [fieldName cfg, fieldRepEmail cfg, fieldStatus cfg]"
    and "set [fieldLeadEmail cfg, fieldLeadPhone cfg, fieldNotes cfg, fieldAffiliateComments cfg]
           \<inter> {Some (fieldName cfg), Some (fieldRepEmail cfg), Some (fieldStatus cfg)} = {}"
    and "input_name input \<noteq> []"
  shows "lead_name (mapRecordToLead rt cfg
            \<lparr> record_id = i, record_createdTime = t, record_fields = newLeadFields cfg input \<rparr>)
           = input_name input
       \<and> lead_psRepEmail (mapRecordToLead rt cfg
            \<lparr> record_id = i, record_createdTime = t, record_fields = newLeadFields cfg input \<rparr>)
           = Some (input_affiliateEmail input)
       \<and> lead_status (mapRecordToLead rt cfg
            \<lparr> record_id = i, record_createdTime = t, record_fields = newLeadFields cfg input \<rparr>)
           = New
       \<and> get_prop (newLeadFields cfg input) (fieldStatus cfg) = JStr ''New''
       \<and> fst ` set (newLeadFields cfg input) =
           {fieldName cfg, fieldRepEmail cfg, fieldStatus cfg}
           \<union> {the k | k v. (k, v) \<in> {(fieldLeadEmail cfg, input_leadEmail input),
                                      (fieldLeadPhone cfg, input_leadPhone input),
                                      (fieldNotes cfg, input_notes input),
                                      (fieldAffiliateComments cfg, input_initialMessage input)}
                            \<and> isSet k \<and> isSet v}
       \<and> (case getBaseUrl cfg of
             Inl e \<Rightarrow> sent (snd (createLead rt cfg h input n)) = sent n
           | Inr url \<Rightarrow>
               sent (snd (createLead rt cfg h input n)) =
                 sent n @ [\<lparr> req_method = POST, req_url = url, req_query = [],
                             req_headers = getHeaders cfg,
                             req_body = Some (createBody (newLeadFields cfg input)) \<rparr>])"
proof -
  note g = newLeadFields_get [OF assms(1) assms(2), of input]
  have 1: "lead_name (mapRecordToLead rt cfg
            \<lparr> record_id = i, record_createdTime = t, record_fields = newLeadFields cfg input \<rparr>)
           = input_name input"
    using assms(3) by (simp add: lead_of_record g or_default_def isSet_def)
  have 2: "lead_psRepEmail (mapRecordToLead rt cfg
            \<lparr> record_id = i, record_createdTime = t, record_fields = newLeadFields cfg input \<rparr>)
           = Some (input_affiliateEmail input)"
    by (simp add: lead_of_record g)
  have 3: "lead_status (mapRecordToLead rt cfg
            \<lparr> record_id = i, record_createdTime = t, record_fields = newLeadFields cfg input \<rparr>)
           = New"
    by (simp add: lead_of_record g normalizeStatus_New)
  have 4: "(case getBaseUrl cfg of
             Inl e \<Rightarrow> sent (snd (createLead rt cfg h input n)) = sent n
           | Inr url \<Rightarrow>
               sent (snd (createLead rt cfg h input n)) =
                 sent n @ [\<lparr> req_method = POST, req_url = url, req_query = [],
                             req_headers = getHeaders cfg,
                             req_body = Some (createBody (newLeadFields cfg input)) \<rparr>])"
  proof (cases "getBaseUrl cfg")
    case (Inl e)
    then show ?thesis by (simp add: createLead_def Let_def)
  next
    case (Inr url)
    then show ?thesis by (simp add: createLead_sent)
  qed
  from 1 2 3 4 g(3) newLeadFields_keys [of cfg input] show ?thesis by simp
qed

theorem roundtrip_name_email_status_witness:
  "lead_name (mapRecordToLead example_rt (loadConfig full_env)
       (createdRecord (newLeadFields (loadConfig full_env) example_input))) = ''Ada Lovelace''
   \<and> lead_psRepEmail (mapRecordToLead example_rt (loadConfig full_env)
       (createdRecord (newLeadFields (loadConfig full_env) example_input))) = Some ''rep@example.com''
   \<and> lead_status (mapRecordToLead example_rt (loadConfig full_env)
       (createdRecord (newLeadFields (loadConfig full_env) example_input))) = New
   \<and> newLeadFields (loadConfig full_env) example_input =
       [(''Name'', JStr ''Ada Lovelace''), (''PS Rep Email'', JStr ''rep@example.com''),
        (''Status'', JStr ''New''), (''Lead Email'', JStr ''ada@example.com''),
        (''Lead Phone'', JStr ''555-0100''), (''Notes'', JStr ''met at the expo''),
        (''Affiliate Comments'', JStr ''hello team'')]"
proof -
  have h1: "distinct [fieldName (loadConfig full_env), fieldRepEmail (loadConfig full_env),
                      fieldStatus (loadConfig full_env)]"
    by (simp add: full_config_simps)
  have h2: "set [fieldLeadEmail (loadConfig full_env), fieldLeadPhone (loadConfig full_env),
                 fieldNotes (loadConfig full_env), fieldAffiliateComments (loadConfig full_env)]
           \<inter> {Some (fieldName (loadConfig full_env)), Some (fieldRepEmail (loadConfig full_env)),
               Some (fieldStatus (loadConfig full_env))} = {}"
    by (simp add: full_config_simps)
  have h3: "input_name example_input \<noteq> []"
    by (simp add: example_input_def)
  have f: "newLeadFields (loadConfig full_env) example_input =
       [(''Name'', JStr ''Ada Lovelace''), (''PS Rep Email'', JStr ''rep@example.com''),
        (''Status'', JStr ''New''), (''Lead Email'', JStr ''ada@example.com''),
        (''Lead Phone'', JStr ''555-0100''), (''Notes'', JStr ''met at the expo''),
        (''Affiliate Comments'', JStr ''hello team'')]"
    by (simp add: newLeadFields_def Let_def setIfConfigured_def isSet_def full_config_simps
        example_input_def)
  have e: "input_name example_input = ''Ada Lovelace''"
    "input_affiliateEmail example_input = ''rep@example.com''"
    by (simp_all add: example_input_def)
  from roundtrip_name_email_status [OF h1 h2 h3, of example_rt "''recNEW1''" "''2024-03-01T10:00:00.000Z''" scripted "start []"]
  show ?thesis
    unfolding createdRecord_def e by (simp add: f)
qed

section \<open>Creating a lead\<close>

lemma throwIfNotOk_Failure:
  "\<exists>m. throwIfNotOk rt (Failure st stext b) = Inl (Error m)"
  by (simp add: Let_def)

lemma createLead_run:
  assumes "getBaseUrl cfg = Inr url"
    and "h \<lparr> req_method = POST, req_url = url, req_query = [], req_headers = getHeaders cfg,
             req_body = Some (createBody (newLeadFields cfg input)) \<rparr> (server n) = (res, s')"
  shows "createLead rt cfg h input n =
     (case res of
        Rejected e \<Rightarrow> Inl (TypeError e)
      | Responded resp \<Rightarrow>
          (case throwIfNotOk rt resp of
             Inl e \<Rightarrow> Inl e
           | Inr u \<Rightarrow>
               (case response_json resp of
                  None \<Rightarrow> Inl SyntaxError
                | Some payload \<Rightarrow>
                    (case records payload of
                       [] \<Rightarrow> Inl (Error ''Airtable did not return created lead.'')
                     | created # others \<Rightarrow> Inr (mapRecordToLead rt cfg created)))),
      \<lparr> server = s', sent = sent n @ [\<lparr> req_method = POST, req_url = url, req_query = [],
             req_headers = getHeaders cfg,
             req_body = Some (createBody (newLeadFields cfg input)) \<rparr>] \<rparr>)"
  using assms
  by (simp add: createLead_def Let_def fetch_def
      split: fetch_result.splits sum.splits option.splits list.splits)

text \<open>
  C7. With a complete configuration \<^verbatim>\<open>createLead\<close> issues one request, and its outcome
  follows the answer. When the store answers with a success status and a JSON body,
  \<^verbatim>\<open>createLead\<close> fails with \<^verbatim>\<open>Airtable did not return created lead.\<close> exactly when the body
  holds no record, and otherwise returns the first record decoded by \<^verbatim>\<open>mapRecordToLead\<close>. A
  rejected request, a response without a success status and a body that is not JSON each
  reach the caller as the error they raise.
\<close>

theorem createLead_outcomes:
  assumes "getBaseUrl cfg = Inr url"
    and "h \<lparr> req_method = POST, req_url = url, req_query = [], req_headers = getHeaders cfg,
             req_body = Some (createBody (newLeadFields cfg input)) \<rparr> (server n) = (res, s')"
  shows "(\<forall>p. res = Responded (Success (Some p)) \<longrightarrow>
            (fst (createLead rt cfg h input n) = Inl (Error ''Airtable did not return created lead.'')
               \<longleftrightarrow> records p = [])
            \<and> (\<forall>created others. records p = created # others \<longrightarrow>
                  fst (createLead rt cfg h input n) = Inr (mapRecordToLead rt cfg created)))
       \<and> (\<forall>e. res = Rejected e \<longrightarrow> fst (createLead rt cfg h input n) = Inl (TypeError e))
       \<and> (\<forall>st stext b. res = Responded (Failure st stext b) \<longrightarrow>
            (\<exists>m. throwIfNotOk rt (Failure st stext b) = Inl (Error m)
                 \<and> fst (createLead rt cfg h input n) = Inl (Error m)))
       \<and> (res = Responded (Success None) \<longrightarrow> fst (createLead rt cfg h input n) = Inl SyntaxError)
       \<and> snd (createLead rt cfg h input n) =
           \<lparr> server = s', sent = sent n @ [\<lparr> req_method = POST, req_url = url, req_query = [],
               req_headers = getHeaders cfg,
               req_body = Some (createBody (newLeadFields cfg input)) \<rparr>] \<rparr>"
proof -
  note r = createLead_run [where h = h and rt = rt, OF assms]
  have a: "(fst (createLead rt cfg h input n) = Inl (Error ''Airtable did not return created lead.'')
               \<longleftrightarrow> records p = [])
            \<and> (\<forall>created others. records p = created # others \<longrightarrow>
                  fst (createLead rt cfg h input n) = Inr (mapRecordToLead rt cfg created))"
    if "res = Responded (Success (Some p))" for p
    using that by (cases "records p") (simp_all add: r)
  have b: "fst (createLead rt cfg h input n) = Inl (TypeError e)" if "res = Rejected e" for e
    using that by (simp add: r)
  have c: "\<exists>m. throwIfNotOk rt (Failure st stext b) = Inl (Error m)
                 \<and> fst (createLead rt cfg h input n) = Inl (Error m)"
    if "res = Responded (Failure st stext b)" for st stext b
    using that by (simp add: r Let_def)
  have d: "fst (createLead rt cfg h input n) = Inl SyntaxError" if "res = Responded (Success None)"
    using that by (simp add: r)
  have e: "snd (createLead rt cfg h input n) =
           \<lparr> server = s', sent = sent n @ [\<lparr> req_method = POST, req_url = url, req_query = [],
               req_headers = getHeaders cfg,
               req_body = Some (createBody (newLeadFields cfg input)) \<rparr>] \<rparr>"
    by (simp add: r)
  show ?thesis
    using a b c d e by (intro conjI allI impI) simp_all
qed

lemma getBaseUrl_example:
  "getBaseUrl example_config = Inr ''https://api.airtable.com/v0/appBASE/tblLEADS''"
  by (simp add: getBaseUrl_def example_config_simps isSet_def template_def)

lemma scripted_simps:
  "scripted rq [] = (Rejected ''Failed to fetch'', [])"
  "scripted rq (x # rest) = (x, rest)"
  by (simp_all add: scripted_def)

theorem createLead_outcomes_witness:
  "getBaseUrl example_config = Inr ''https://api.airtable.com/v0/appBASE/tblLEADS''
   \<and> fst (createLead example_rt example_config scripted example_input
        (start [Responded (Success (Some \<lparr> records = [], offset = None \<rparr>))]))
       = Inl (Error ''Airtable did not return created lead.'')
   \<and> fst (createLead example_rt example_config scripted example_input
        (start [Responded (Success (Some
           \<lparr> records = [createdRecord (newLeadFields example_config example_input)],
             offset = None \<rparr>))]))
       = Inr (mapRecordToLead example_rt example_config
                (createdRecord (newLeadFields example_config example_input)))
   \<and> fst (createLead example_rt example_config scripted example_input (start []))
       = Inl (TypeError ''Failed to fetch'')"
proof -
  let ?rq = "\<lparr> req_method = POST, req_url = ''https://api.airtable.com/v0/appBASE/tblLEADS'',
             req_query = [], req_headers = getHeaders example_config,
             req_body = Some (createBody (newLeadFields example_config example_input)) \<rparr>"
  let ?p0 = "\<lparr> records = [], offset = None \<rparr>"
  let ?p1 = "\<lparr> records = [createdRecord (newLeadFields example_config example_input)],
             offset = None \<rparr>"
  have s0: "scripted ?rq (server (start [Responded (Success (Some ?p0))]))
             = (Responded (Success (Some ?p0)), [])"
    by (simp add: start_def scripted_simps)
  have s1: "scripted ?rq (server (start [Responded (Success (Some ?p1))]))
             = (Responded (Success (Some ?p1)), [])"
    by (simp add: start_def scripted_simps)
  have s2: "scripted ?rq (server (start [])) = (Rejected ''Failed to fetch'', [])"
    by (simp add: start_def scripted_simps)
  from createLead_outcomes [where h = scripted and rt = example_rt, OF getBaseUrl_example s0]
       createLead_outcomes [where h = scripted and rt = example_rt, OF getBaseUrl_example s1]
       createLead_outcomes [where h = scripted and rt = example_rt, OF getBaseUrl_example s2]
       getBaseUrl_example
  show ?thesis by simp
qed

section \<open>Paginated fetcher\<close>

lemma loop_step:
  "h (pageRequest cfg baseUrl params off) (server n) = (res, s') \<Longrightarrow>
   fetchAllRecords_loop rt cfg h baseUrl params recs off n =
     (let n1 = \<lparr> server = s', sent = sent n @ [pageRequest cfg baseUrl params off] \<rparr>
      in case res of
           Rejected e \<Rightarrow> Some (Inl (TypeError e), n1)
         | Responded resp \<Rightarrow>
             (case throwIfNotOk rt resp of
                Inl e \<Rightarrow> Some (Inl e, n1)
              | Inr u \<Rightarrow>
                  (case response_json resp of
                     None \<Rightarrow> Some (Inl SyntaxError, n1)
                   | Some payload \<Rightarrow>
                       (if isSet (offset payload)
                        then fetchAllRecords_loop rt cfg h baseUrl params
                               (recs @ records payload) (offset payload) n1
                        else Some (Inr (recs @ records payload), n1)))))"
  by (subst fetchAllRecords_loop.simps) (simp add: fetch_def Let_def)

lemma loop_pages:
  assumes "pages \<noteq> []"
    and "\<forall>p \<in> set (butlast pages). isSet (offset p)"
    and "\<not> isSet (offset (last pages))"
  shows "fetchAllRecords_loop rt cfg scripted baseUrl params recs off
           \<lparr> server = map okPage pages @ rest, sent = issued \<rparr> =
         Some (Inr (recs @ concat (map records pages)),
               \<lparr> server = rest,
                 sent = issued @ map (pageRequest cfg baseUrl params) (off # map offset (butlast pages)) \<rparr>)"
  using assms
proof (induction pages arbitrary: recs off issued)
  case Nil
  then show ?case by simp
next
  case (Cons p ps)
  have st: "scripted (pageRequest cfg baseUrl params off)
              (server \<lparr> server = map okPage (p # ps) @ rest, sent = issued \<rparr>)
            = (okPage p, map okPage ps @ rest)"
    by (simp add: scripted_simps)
  note eq = loop_step [where h = scripted and rt = rt and recs = recs, OF st]
  show ?case
  proof (cases "ps = []")
    case True
    with Cons.prems have "\<not> isSet (offset p)" by simp
    with True show ?thesis
      by (subst eq) (simp add: okPage_def)
  next
    case False
    with Cons.prems have t: "isSet (offset p)" by simp
    from False Cons.prems have a: "\<forall>q \<in> set (butlast ps). isSet (offset q)"
      and b: "\<not> isSet (offset (last ps))" by simp_all
    from False t show ?thesis
      by (subst eq) (simp add: okPage_def Cons.IH [OF False a b])
  qed
qed


lemma loop_failure:
  "fetchAllRecords_loop rt cfg scripted baseUrl params recs off
     \<lparr> server = Responded (Failure st stext body) # rest, sent = issued \<rparr> =
   Some (Inl (Error
           (let m = opt_chain (opt_chain (case body of Some j \<Rightarrow> j | None \<Rightarrow> JObj []) ''error'')
                      ''message''
            in if truthy m then toString rt m
               else ''Airtable request failed ('' @ string_of_nat st @ '' '' @ stext @ '')'')),
         \<lparr> server = rest, sent = issued @ [pageRequest cfg baseUrl params off] \<rparr>)"
proof -
  have st: "scripted (pageRequest cfg baseUrl params off)
              (server \<lparr> server = Responded (Failure st stext body) # rest, sent = issued \<rparr>)
            = (Responded (Failure st stext body), rest)"
    by (simp add: scripted_simps)
  show ?thesis
    by (subst loop_step [where h = scripted and rt = rt and recs = recs, OF st])
       (simp add: Let_def)
qed

lemma loop_rejected:
  "fetchAllRecords_loop rt cfg scripted baseUrl params recs off
     \<lparr> server = Rejected e # rest, sent = issued \<rparr> =
   Some (Inl (TypeError e),
         \<lparr> server = rest, sent = issued @ [pageRequest cfg baseUrl params off] \<rparr>)"
proof -
  have st: "scripted (pageRequest cfg baseUrl params off)
              (server \<lparr> server = Rejected e # rest, sent = issued \<rparr>)
            = (Rejected e, rest)"
    by (simp add: scripted_simps)
  show ?thesis
    by (subst loop_step [where h = scripted and rt = rt and recs = recs, OF st]) simp
qed













section \<open>Comments of a lead: the fallback scan\<close>

lemma str_includes_iff: "str_includes s t \<longleftrightarrow> (\<exists>a b. s = a @ t @ b)"
proof (induction s)
  case Nil
  then show ?case by auto
next
  case (Cons c s)
  show ?case
  proof
    assume "str_includes (c # s) t"
    then consider "prefix t (c # s)" | "str_includes s t" by auto
    then show "\<exists>a b. c # s = a @ t @ b"
    proof cases
      case 1
      then obtain b where "c # s = t @ b" by (auto simp: prefix_def)
      then have "c # s = [] @ t @ b" by simp
      then show ?thesis by blast
    next
      case 2
      with Cons.IH obtain a b where "s = a @ t @ b" by blast
      then have "c # s = (c # a) @ t @ b" by simp
      then show ?thesis by blast
    qed
  next
    assume "\<exists>a b. c # s = a @ t @ b"
    then obtain a b where e: "c # s = a @ t @ b" by blast
    show "str_includes (c # s) t"
    proof (cases a)
      case Nil
      with e have "prefix t (c # s)" by (simp add: prefix_def)
      then show ?thesis by simp
    next
      case (Cons x a')
      with e have "s = a' @ t @ b" by simp
      with Cons.IH have "str_includes s t" by blast
      then show ?thesis by simp
    qed
  qed
qed

lemma itemLinksToLead_iff:
  "itemLinksToLead leadId item \<longleftrightarrow>
     item = JStr leadId \<or> (\<exists>kvs. item = JObj kvs \<and> get_prop kvs ''id'' = JStr leadId)"
proof -
  have "has_prop kvs ''id''" if "get_prop kvs ''id'' = JStr leadId" for kvs
  proof -
    from that obtain v where "map_of kvs ''id'' = Some v"
      by (auto simp: get_prop_def split: option.splits)
    then have "(''id'', v) \<in> set kvs" by (rule map_of_SomeD)
    then show ?thesis by (force simp: has_prop_def)
  qed
  then show ?thesis
    by (cases item) (auto simp: itemLinksToLead_def)
qed

lemma recordLinksToLead_iff:
  "recordLinksToLead r leadId \<longleftrightarrow>
     (\<exists>v \<in> snd ` set (record_fields r).
        (\<exists>s. v = JStr s \<and> (\<exists>a b. s = a @ leadId @ b))
        \<or> (\<exists>items. v = JArr items
              \<and> (\<exists>item \<in> set items.
                    item = JStr leadId
                    \<or> (\<exists>kvs. item = JObj kvs \<and> get_prop kvs ''id'' = JStr leadId))))"
proof -
  have "(case v of JArr items \<Rightarrow> list_ex (itemLinksToLead leadId) items
            | JStr s \<Rightarrow> str_includes s leadId | _ \<Rightarrow> False)
        \<longleftrightarrow> (\<exists>s. v = JStr s \<and> (\<exists>a b. s = a @ leadId @ b))
        \<or> (\<exists>items. v = JArr items
              \<and> (\<exists>item \<in> set items.
                    item = JStr leadId
                    \<or> (\<exists>kvs. item = JObj kvs \<and> get_prop kvs ''id'' = JStr leadId)))" for v
    by (cases v) (simp_all add: list_ex_iff itemLinksToLead_iff str_includes_iff)
  then show ?thesis
    by (simp add: recordLinksToLead_def list_ex_iff)
qed

text \<open>
  C1. With a complete configuration, let the primary query, the paginated fetch with the
  \<^verbatim>\<open>filterByFormula\<close> parameter, end in an error or in zero records. Then
  \<^verbatim>\<open>fetchAffiliateCommentsForLead\<close> does not fail with that error: it fetches the comments
  table again with no parameter, from the state the primary query left, and an error of this
  second fetch is the result; when the second fetch returns records, the comments are made
  from exactly the records that \<^verbatim>\<open>recordLinksToLead\<close> accepts. When the primary query returns
  at least one record, the comments are made from its records and there is no second fetch.
  A record is accepted exactly when one of its field values is a string that contains the
  lead identifier, or an array with an element that is the lead identifier itself or an object
  whose \<^verbatim>\<open>id\<close> is the lead identifier.
\<close>

theorem fetchComments_fallback:
  assumes "getCommentsBaseUrl cfg = Inr baseUrl"
    and "fetchAllRecords rt cfg h baseUrl [(''filterByFormula'', filterFormula cfg leadId)] n
           = Some (primary, n1)"
  shows "((\<exists>e. primary = Inl e) \<or> primary = Inr [] \<longrightarrow>
            (\<forall>e2 n2. fetchAllRecords rt cfg h baseUrl [] n1 = Some (Inl e2, n2) \<longrightarrow>
                fetchAffiliateCommentsForLead rt cfg h leadId n = Some (Inl e2, n2))
            \<and> (\<forall>rs n2. fetchAllRecords rt cfg h baseUrl [] n1 = Some (Inr rs, n2) \<longrightarrow>
                fetchAffiliateCommentsForLead rt cfg h leadId n =
                  Some (Inr (commentsOfRecords rt cfg
                               (filter (\<lambda>r. recordLinksToLead r leadId) rs)), n2))
            \<and> (fetchAllRecords rt cfg h baseUrl [] n1 = None \<longrightarrow>
                fetchAffiliateCommentsForLead rt cfg h leadId n = None))
       \<and> (\<forall>rs. primary = Inr rs \<and> rs \<noteq> [] \<longrightarrow>
            fetchAffiliateCommentsForLead rt cfg h leadId n =
              Some (Inr (commentsOfRecords rt cfg rs), n1))
       \<and> (recordLinksToLead r leadId \<longleftrightarrow>
            (\<exists>v \<in> snd ` set (record_fields r).
               (\<exists>s. v = JStr s \<and> (\<exists>a b. s = a @ leadId @ b))
               \<or> (\<exists>items. v = JArr items
                     \<and> (\<exists>item \<in> set items.
                           item = JStr leadId
                           \<or> (\<exists>kvs. item = JObj kvs \<and> get_prop kvs ''id'' = JStr leadId)))))"
proof -
  have a: "(\<forall>e2 n2. fetchAllRecords rt cfg h baseUrl [] n1 = Some (Inl e2, n2) \<longrightarrow>
                fetchAffiliateCommentsForLead rt cfg h leadId n = Some (Inl e2, n2))
            \<and> (\<forall>rs n2. fetchAllRecords rt cfg h baseUrl [] n1 = Some (Inr rs, n2) \<longrightarrow>
                fetchAffiliateCommentsForLead rt cfg h leadId n =
                  Some (Inr (commentsOfRecords rt cfg
                               (filter (\<lambda>r. recordLinksToLead r leadId) rs)), n2))
            \<and> (fetchAllRecords rt cfg h baseUrl [] n1 = None \<longrightarrow>
                fetchAffiliateCommentsForLead rt cfg h leadId n = None)"
    if "(\<exists>e. primary = Inl e) \<or> primary = Inr []"
    using that assms
    by (auto simp: fetchAffiliateCommentsForLead_def Let_def)
  have b: "fetchAffiliateCommentsForLead rt cfg h leadId n =
              Some (Inr (commentsOfRecords rt cfg rs), n1)"
    if "primary = Inr rs \<and> rs \<noteq> []" for rs
    using that assms
    by (auto simp: fetchAffiliateCommentsForLead_def Let_def)
  from a b recordLinksToLead_iff [of r leadId] show ?thesis
    by (intro conjI impI allI) blast+
qed


lemma getCommentsBaseUrl_example:
  "getCommentsBaseUrl example_config = Inr ''https://api.airtable.com/v0/appBASE/tblrMlNIChN4hKVkM''"
  by (simp add: getCommentsBaseUrl_def example_config_simps isSet_def template_def)

lemma fetchAllRecords_one_page:
  "\<not> isSet (offset p) \<Longrightarrow>
   fetchAllRecords rt cfg scripted baseUrl params \<lparr> server = okPage p # rest, sent = issued \<rparr> =
     Some (Inr (records p),
           \<lparr> server = rest, sent = issued @ [pageRequest cfg baseUrl params None] \<rparr>)"
  using loop_pages [of "[p]" rt cfg baseUrl params "[]" None rest issued]
  by (simp add: fetchAllRecords_def)

lemma example_links:
  "filter (\<lambda>r. recordLinksToLead r ''recLEAD1'') example_comment_records =
     [example_comment_records ! 0, example_comment_records ! 1, example_comment_records ! 3]"
  by (simp add: example_comment_records_def recordLinksToLead_def itemLinksToLead_def
      has_prop_def get_prop_def)

lemma example_comments:
  "commentsOfRecords example_rt example_config
     [example_comment_records ! 0, example_comment_records ! 1, example_comment_records ! 3] =
     [\<lparr> comment_id = ''recC2'', comment_text = ''first'',
        comment_createdTime = Some 1709287200000, comment_author = None \<rparr>,
      \<lparr> comment_id = ''recC1'', comment_text = ''second'',
        comment_createdTime = Some 1709371800000, comment_author = None \<rparr>]"
  by (simp add: example_comment_records_def commentsOfRecords_def mapRecordToComment_def
      commentText_def textCandidates_def example_config_simps get_prop_def or_default_def
      isSet_def trim_examples array_sort_def compareCreated_def example_rt_def)

theorem fetchComments_fallback_witness:
  "fetchAffiliateCommentsForLead example_rt example_config scripted ''recLEAD1''
     (start [Responded (Failure 422 ''Unprocessable Entity''
               (Some (JObj [(''error'', JObj [(''type'', JStr ''INVALID_FILTER_BY_FORMULA''),
                                              (''message'', JStr ''The formula is invalid'')])]))),
             okPage \<lparr> records = example_comment_records, offset = None \<rparr>])
   = Some (Inr [\<lparr> comment_id = ''recC2'', comment_text = ''first'',
                  comment_createdTime = Some 1709287200000, comment_author = None \<rparr>,
                \<lparr> comment_id = ''recC1'', comment_text = ''second'',
                  comment_createdTime = Some 1709371800000, comment_author = None \<rparr>],
           \<lparr> server = [],
             sent = [pageRequest example_config
                       ''https://api.airtable.com/v0/appBASE/tblrMlNIChN4hKVkM''
                       [(''filterByFormula'', filterFormula example_config ''recLEAD1'')] None,
                     pageRequest example_config
                       ''https://api.airtable.com/v0/appBASE/tblrMlNIChN4hKVkM'' [] None] \<rparr>)
   \<and> fetchAffiliateCommentsForLead example_rt example_config scripted ''recLEAD1''
       (start [okPage \<lparr> records = [], offset = None \<rparr>])
     = Some (Inl (TypeError ''Failed to fetch''),
             \<lparr> server = [],
               sent = [pageRequest example_config
                         ''https://api.airtable.com/v0/appBASE/tblrMlNIChN4hKVkM''
                         [(''filterByFormula'', filterFormula example_config ''recLEAD1'')] None,
                       pageRequest example_config
                         ''https://api.airtable.com/v0/appBASE/tblrMlNIChN4hKVkM'' [] None] \<rparr>)"
proof -
  let ?u = "''https://api.airtable.com/v0/appBASE/tblrMlNIChN4hKVkM''"
  let ?f = "[(''filterByFormula'', filterFormula example_config ''recLEAD1'')]"
  let ?bad = "Responded (Failure 422 ''Unprocessable Entity''
               (Some (JObj [(''error'', JObj [(''type'', JStr ''INVALID_FILTER_BY_FORMULA''),
                                              (''message'', JStr ''The formula is invalid'')])])))"
  let ?page = "\<lparr> records = example_comment_records, offset = None \<rparr>"
  let ?n1 = "\<lparr> server = [okPage ?page], sent = [pageRequest example_config ?u ?f None] \<rparr>"
  let ?m1 = "\<lparr> server = [] :: fetch_result list, sent = [pageRequest example_config ?u ?f None] \<rparr>"
  have p1: "fetchAllRecords example_rt example_config scripted ?u ?f (start [?bad, okPage ?page])
              = Some (Inl (Error ''The formula is invalid''), ?n1)"
    by (simp add: fetchAllRecords_def start_def loop_failure opt_chain_def get_prop_def
        del: string_of_nat.simps)
  have f1: "fetchAllRecords example_rt example_config scripted ?u [] ?n1
              = Some (Inr example_comment_records,
                      \<lparr> server = [], sent = [pageRequest example_config ?u ?f None,
                                              pageRequest example_config ?u [] None] \<rparr>)"
    by (simp add: fetchAllRecords_one_page isSet_def)
  have p2: "fetchAllRecords example_rt example_config scripted ?u ?f
              (start [okPage \<lparr> records = [], offset = None \<rparr>])
              = Some (Inr [], ?m1)"
    by (simp add: start_def fetchAllRecords_one_page isSet_def)
  have f2: "fetchAllRecords example_rt example_config scripted ?u [] ?m1
              = Some (Inl (TypeError ''Failed to fetch''),
                      \<lparr> server = [], sent = [pageRequest example_config ?u ?f None,
                                              pageRequest example_config ?u [] None] \<rparr>)"
    by (simp add: fetchAllRecords_def loop_step [where h = scripted] scripted_simps)
  note t1 = fetchComments_fallback [where h = scripted, OF getCommentsBaseUrl_example p1]
  note t2 = fetchComments_fallback [where h = scripted, OF getCommentsBaseUrl_example p2]
  from t1 f1 have a: "fetchAffiliateCommentsForLead example_rt example_config scripted ''recLEAD1''
         (start [?bad, okPage ?page]) =
       Some (Inr (commentsOfRecords example_rt example_config
                    (filter (\<lambda>r. recordLinksToLead r ''recLEAD1'') example_comment_records)),
             \<lparr> server = [], sent = [pageRequest example_config ?u ?f None,
                                     pageRequest example_config ?u [] None] \<rparr>)"
    by blast
  from t2 f2 have b: "fetchAffiliateCommentsForLead example_rt example_config scripted ''recLEAD1''
         (start [okPage \<lparr> records = [], offset = None \<rparr>]) =
       Some (Inl (TypeError ''Failed to fetch''),
             \<lparr> server = [], sent = [pageRequest example_config ?u ?f None,
                                     pageRequest example_config ?u [] None] \<rparr>)"
    by blast
  from a b show ?thesis
    by (simp only: example_links example_comments) 
qed

section \<open>Comments of a lead: order and blank texts\<close>

lemma find_unique:
  assumes "x \<in> set xs" and "P x" and "\<forall>y \<in> set xs. P y \<longrightarrow> y = x"
  shows "find P xs = Some x"
  using assms(1,3)
proof (induction xs)
  case Nil
  then show ?case by simp
next
  case (Cons a xs)
  show ?case
  proof (cases "P a")
    case True
    with Cons.prems(2) have "a = x" by simp
    with True show ?thesis by simp
  next
    case False
    with assms(2) have "a \<noteq> x" by blast
    with Cons.prems have "x \<in> set xs" and "\<forall>y \<in> set xs. P y \<longrightarrow> y = x" by simp_all
    with Cons.IH have "find P xs = Some x" by blast
    with False show ?thesis by simp
  qed
qed

lemma whiteSpace_prefix_free:
  "\<forall>a \<in> set whiteSpace. \<forall>b \<in> set whiteSpace. prefix a b \<longrightarrow> a = b"
  by (simp add: whiteSpace_def)

lemma stripLeading_word:
  assumes pf: "\<forall>a \<in> set ws. \<forall>b \<in> set ws. prefix a b \<longrightarrow> a = b"
    and w: "w \<in> set ws" and ne: "w \<noteq> []"
  shows "stripLeading ws (w @ r) = stripLeading ws r"
proof -
  have "find (\<lambda>v. v \<noteq> [] \<and> prefix v (w @ r)) ws = Some w"
  proof (rule find_unique [OF w])
    show "w \<noteq> [] \<and> prefix w (w @ r)" using ne by simp
    show "\<forall>y \<in> set ws. y \<noteq> [] \<and> prefix y (w @ r) \<longrightarrow> y = w"
    proof (intro ballI impI)
      fix y assume y: "y \<in> set ws" and "y \<noteq> [] \<and> prefix y (w @ r)"
      then have "prefix y (w @ r)" by simp
      moreover have "prefix w (w @ r)" by simp
      ultimately have "prefix y w \<or> prefix w y" by (rule prefix_same_cases)
      with pf y w show "y = w" by auto
    qed
  qed
  then show ?thesis
    by (subst stripLeading.simps) simp
qed

lemma stripLeading_words:
  assumes pf: "\<forall>a \<in> set ws. \<forall>b \<in> set ws. prefix a b \<longrightarrow> a = b"
    and "[] \<notin> set ws" and "set vs \<subseteq> set ws"
  shows "stripLeading ws (concat vs @ r) = stripLeading ws r"
  using assms(3)
proof (induction vs)
  case Nil
  then show ?case by simp
next
  case (Cons v vs)
  then have "v \<in> set ws" and "v \<noteq> []" using assms(2) by auto
  with Cons pf show ?case
    by (simp add: stripLeading_word)
qed

lemma stripLeading_split:
  "\<exists>vs. set vs \<subseteq> set ws \<and> s = concat vs @ stripLeading ws s"
proof (induction ws s rule: stripLeading.induct)
  case (1 ws s)
  show ?case
  proof (cases "find (\<lambda>w. w \<noteq> [] \<and> prefix w s) ws")
    case None
    then have "stripLeading ws s = s" by (subst stripLeading.simps) simp
    then have "set [] \<subseteq> set ws \<and> s = concat [] @ stripLeading ws s" by simp
    then show ?thesis by blast
  next
    case (Some w)
    then have w: "w \<in> set ws" and p: "prefix w s"
      by (auto simp: find_Some_iff)
    from Some have e: "stripLeading ws s = stripLeading ws (drop (length w) s)"
      by (subst stripLeading.simps) simp
    from 1 [OF Some] obtain vs where vs: "set vs \<subseteq> set ws"
      and d: "drop (length w) s = concat vs @ stripLeading ws (drop (length w) s)" by blast
    from p have "s = w @ drop (length w) s" by (auto simp: prefix_def)
    with d e have "s = concat (w # vs) @ stripLeading ws s" by simp
    moreover from w vs have "set (w # vs) \<subseteq> set ws" by simp
    ultimately show ?thesis by blast
  qed
qed

lemma trim_Nil_iff:
  "trim s = [] \<longleftrightarrow> (\<exists>vs. set vs \<subseteq> set whiteSpace \<and> s = concat vs)"
proof
  assume "\<exists>vs. set vs \<subseteq> set whiteSpace \<and> s = concat vs"
  then obtain vs where vs: "set vs \<subseteq> set whiteSpace" and s: "s = concat vs" by blast
  have "[] \<notin> set whiteSpace" by (simp add: whiteSpace_def)
  with stripLeading_words [OF whiteSpace_prefix_free _ vs, of "[]"]
  have "stripLeading whiteSpace s = []" by (simp add: s stripLeading_Nil)
  then show "trim s = []" by (simp add: trim_def stripLeading_Nil)
next
  assume "trim s = []"
  then have z: "stripLeading (map rev whiteSpace) (rev (stripLeading whiteSpace s)) = []"
    by (simp add: trim_def)
  from stripLeading_split [of "map rev whiteSpace" "rev (stripLeading whiteSpace s)"] z
  obtain us where us: "set us \<subseteq> set (map rev whiteSpace)"
    and r: "rev (stripLeading whiteSpace s) = concat us" by auto
  from stripLeading_split [of whiteSpace s]
  obtain vs where vs: "set vs \<subseteq> set whiteSpace"
    and s: "s = concat vs @ stripLeading whiteSpace s" by blast
  from r have "stripLeading whiteSpace s = rev (concat us)" by (metis rev_rev_ident)
  then have t: "stripLeading whiteSpace s = concat (map rev (rev us))"
    by (simp add: rev_concat rev_map)
  from us have "set (map rev (rev us)) \<subseteq> set whiteSpace" by auto
  with vs have "set (vs @ map rev (rev us)) \<subseteq> set whiteSpace" by simp
  moreover from s t have "s = concat (vs @ map rev (rev us))" by simp
  ultimately show "\<exists>vs. set vs \<subseteq> set whiteSpace \<and> s = concat vs" by blast
qed

lemma trim_not_Nil_iff:
  "trim s \<noteq> [] \<longleftrightarrow> (\<forall>vs. set vs \<subseteq> set whiteSpace \<longrightarrow> s \<noteq> concat vs)"
  by (simp add: trim_Nil_iff)

lemma sort_insert_sorted:
  assumes "comment_createdTime x \<noteq> None"
    and "\<forall>y \<in> set ys. comment_createdTime y \<noteq> None"
    and "sorted (map (\<lambda>c. the (comment_createdTime c)) ys)"
  shows "sorted (map (\<lambda>c. the (comment_createdTime c)) (sort_insert compareCreated x ys))"
  using assms
proof (induction ys)
  case Nil
  then show ?case by simp
next
  case (Cons y ys)
  from Cons.prems obtain tx ty where tx: "comment_createdTime x = Some tx"
    and ty: "comment_createdTime y = Some ty" by auto
  show ?case
  proof (cases "tx \<le> ty")
    case True
    with tx ty have "sort_insert compareCreated x (y # ys) = x # y # ys"
      by (simp add: compareCreated_def)
    with True Cons.prems tx ty show ?thesis by auto
  next
    case False
    with tx ty have e: "sort_insert compareCreated x (y # ys) = y # sort_insert compareCreated x ys"
      by (simp add: compareCreated_def)
    from Cons.prems have ih: "sorted (map (\<lambda>c. the (comment_createdTime c))
                                   (sort_insert compareCreated x ys))"
      by (intro Cons.IH) simp_all
    from False Cons.prems tx ty ih show ?thesis
      unfolding e by (auto simp: set_sort_insert)
  qed
qed

lemma array_sort_sorted:
  "\<forall>c \<in> set xs. comment_createdTime c \<noteq> None \<Longrightarrow>
     sorted (map (\<lambda>c. the (comment_createdTime c)) (array_sort compareCreated xs))"
proof (induction xs)
  case Nil
  then show ?case by (simp add: array_sort_def)
next
  case (Cons x xs)
  then have "sorted (map (\<lambda>c. the (comment_createdTime c)) (array_sort compareCreated xs))"
    by simp
  with Cons.prems
  have "sorted (map (\<lambda>c. the (comment_createdTime c))
           (sort_insert compareCreated x (array_sort compareCreated xs)))"
    by (intro sort_insert_sorted) (simp_all add: set_array_sort)
  then show ?case by (simp add: array_sort_def)
qed

lemma commentsOfRecords_sorted:
  assumes "\<forall>c \<in> set (commentsOfRecords rt cfg recs). comment_createdTime c \<noteq> None"
  shows "sorted (map (\<lambda>c. the (comment_createdTime c)) (commentsOfRecords rt cfg recs))"
proof -
  from assms
  have "\<forall>c \<in> set (filter (\<lambda>c. length (trim (comment_text c)) > 0)
                     (map (mapRecordToComment rt cfg) recs)). comment_createdTime c \<noteq> None"
    by (simp add: commentsOfRecords_def set_array_sort)
  then show ?thesis
    unfolding commentsOfRecords_def by (rule array_sort_sorted)
qed

lemma commentsOfRecords_mset:
  "mset (commentsOfRecords rt cfg recs) =
     mset (filter (\<lambda>c. \<forall>vs. set vs \<subseteq> set whiteSpace \<longrightarrow> comment_text c \<noteq> concat vs)
             (map (mapRecordToComment rt cfg) recs))"
  by (simp add: commentsOfRecords_def mset_array_sort trim_not_Nil_iff)

lemma fetchComments_result:
  "fetchAffiliateCommentsForLead rt cfg h leadId n = Some (Inr cs, n') \<Longrightarrow>
     \<exists>recs. cs = commentsOfRecords rt cfg recs"
  by (auto simp: fetchAffiliateCommentsForLead_def Let_def
      split: sum.splits option.splits prod.splits if_splits)

lemma loop_scripted_returns:
  "\<exists>res. fetchAllRecords_loop rt cfg scripted baseUrl params recs off
            \<lparr> server = script, sent = issued \<rparr> = Some res"
proof (induction script arbitrary: recs off issued)
  case Nil
  have st: "scripted (pageRequest cfg baseUrl params off)
              (server \<lparr> server = [] :: fetch_result list, sent = issued \<rparr>)
            = (Rejected ''Failed to fetch'', [])"
    by (simp add: scripted_simps)
  show ?case
    by (subst loop_step [where h = scripted and rt = rt and recs = recs, OF st]) simp
next
  case (Cons x script)
  have st: "scripted (pageRequest cfg baseUrl params off)
              (server \<lparr> server = x # script, sent = issued \<rparr>) = (x, script)"
    by (simp add: scripted_simps)
  note eq = loop_step [where h = scripted and rt = rt and recs = recs, OF st]
  show ?case
  proof (cases x)
    case (Rejected e)
    then show ?thesis by (subst eq) simp
  next
    case (Responded resp)
    show ?thesis
    proof (cases resp)
      case (Success p)
      show ?thesis
      proof (cases p)
        case None
        with Responded Success show ?thesis by (subst eq) simp
      next
        case (Some payload)
        with Responded Success
          Cons.IH [of "recs @ records payload" "offset payload"
                      "issued @ [pageRequest cfg baseUrl params off]"]
        show ?thesis by (subst eq) (auto simp: Let_def)
      qed
    next
      case (Failure st stext body)
      with Responded show ?thesis by (subst eq) (simp add: Let_def)
    qed
  qed
qed

lemma fetchAllRecords_scripted_returns:
  "\<exists>res. fetchAllRecords rt cfg scripted baseUrl params n = Some res"
proof -
  have "n = \<lparr> server = server n, sent = sent n \<rparr>" by simp
  then show ?thesis
    unfolding fetchAllRecords_def using loop_scripted_returns by metis
qed

lemma fetchComments_scripted_returns:
  "\<exists>res. fetchAffiliateCommentsForLead rt cfg scripted leadId n = Some res"
proof (cases "getCommentsBaseUrl cfg")
  case (Inl e)
  then show ?thesis by (simp add: fetchAffiliateCommentsForLead_def)
next
  case (Inr baseUrl)
  obtain primary n1 where p: "fetchAllRecords rt cfg scripted baseUrl
      [(''filterByFormula'', filterFormula cfg leadId)] n = Some (primary, n1)"
    using fetchAllRecords_scripted_returns by (metis surj_pair)
  obtain fallback n2 where f: "fetchAllRecords rt cfg scripted baseUrl [] n1 = Some (fallback, n2)"
    using fetchAllRecords_scripted_returns by (metis surj_pair)
  from Inr p f show ?thesis
    by (cases fallback) (simp_all add: fetchAffiliateCommentsForLead_def Let_def)
qed


lemma trim_more_examples:
  "trim ''third of March'' = ''third of March''"
  "trim ''undated'' = ''undated''"
  "trim ''first of March'' = ''first of March''"
  "trim ''  first '' = ''first''"
  "trim [CHR 0xC2, CHR 0xA0] = []"
  "trim [CHR 0x20, CHR 0xE2, CHR 0x80, CHR 0xA8, CHR 0xEF, CHR 0xBB, CHR 0xBF] = []"
  by code_simp+

lemma undated_comments:
  "commentsOfRecords example_rt example_config undated_comment_records =
     [\<lparr> comment_id = ''recD1'', comment_text = ''third of March'',
        comment_createdTime = Some 1709453700000, comment_author = None \<rparr>,
      \<lparr> comment_id = ''recD2'', comment_text = ''undated'',
        comment_createdTime = None, comment_author = None \<rparr>,
      \<lparr> comment_id = ''recD3'', comment_text = ''first of March'',
        comment_createdTime = Some 1709287200000, comment_author = None \<rparr>]"
  by (simp add: undated_comment_records_def commentsOfRecords_def mapRecordToComment_def
      commentText_def textCandidates_def example_config_simps get_prop_def or_default_def
      isSet_def trim_more_examples array_sort_def compareCreated_def example_rt_def)

text \<open>
  C6, as stated, has the comments in ascending order of creation time for every set of
  fetched records. The comparison function subtracts the time values of two dates, and for
  a creation time that is not a date the difference is \<^verbatim>\<open>NaN\<close>, which the sort reads as
  zero: a comment of 3 March, an undated one and a comment of 1 March come back in that
  order, the later comment before the earlier one.
\<close>

theorem fetchComments_undated_counterexample:
  "fetchAffiliateCommentsForLead example_rt example_config scripted ''recLEAD1''
     (start [okPage \<lparr> records = undated_comment_records, offset = None \<rparr>])
   = Some (Inr [\<lparr> comment_id = ''recD1'', comment_text = ''third of March'',
                  comment_createdTime = Some 1709453700000, comment_author = None \<rparr>,
                \<lparr> comment_id = ''recD2'', comment_text = ''undated'',
                  comment_createdTime = None, comment_author = None \<rparr>,
                \<lparr> comment_id = ''recD3'', comment_text = ''first of March'',
                  comment_createdTime = Some 1709287200000, comment_author = None \<rparr>],
           \<lparr> server = [],
             sent = [pageRequest example_config
                       ''https://api.airtable.com/v0/appBASE/tblrMlNIChN4hKVkM''
                       [(''filterByFormula'', filterFormula example_config ''recLEAD1'')] None] \<rparr>)
   \<and> (1709287200000 :: int) < 1709453700000"
proof -
  let ?u = "''https://api.airtable.com/v0/appBASE/tblrMlNIChN4hKVkM''"
  let ?f = "[(''filterByFormula'', filterFormula example_config ''recLEAD1'')]"
  have ne: "undated_comment_records \<noteq> []"
    by (simp add: undated_comment_records_def)
  have p: "fetchAllRecords example_rt example_config scripted ?u ?f
             (start [okPage \<lparr> records = undated_comment_records, offset = None \<rparr>])
           = Some (Inr undated_comment_records,
                   \<lparr> server = [], sent = [pageRequest example_config ?u ?f None] \<rparr>)"
    by (simp add: start_def fetchAllRecords_one_page isSet_def)
  show ?thesis
    using ne
    by (simp add: fetchAffiliateCommentsForLead_def getCommentsBaseUrl_example p Let_def
        undated_comments)
qed

text \<open>
  C6, amended. Whatever the lead identifier and whatever the remote store answers, when
  \<^verbatim>\<open>fetchAffiliateCommentsForLead\<close> returns comments, none of them has a text that is empty or
  made of white space only, that is, a text that \<^verbatim>\<open>trim\<close> empties: a text is emptied exactly
  when it is a sequence of white space characters. The comments returned are, up to order,
  the comments of the selected records whose text is not such a sequence: a comment with a
  blank text is dropped and no other is. When the creation time of every comment returned is
  a valid date, the comments are in ascending order of creation time (equal times in any
  order). Against a store that answers from a finite script the function always returns.
\<close>

theorem fetchComments_sorted_nonblank:
  assumes "fetchAffiliateCommentsForLead rt cfg h leadId n = Some (Inr cs, n')"
  shows "(\<forall>c \<in> set cs. trim (comment_text c) \<noteq> []
                      \<and> (\<forall>vs. set vs \<subseteq> set whiteSpace \<longrightarrow> comment_text c \<noteq> concat vs))
       \<and> ((\<forall>c \<in> set cs. comment_createdTime c \<noteq> None)
            \<longrightarrow> sorted (map (\<lambda>c. the (comment_createdTime c)) cs))
       \<and> (\<exists>recs. cs = commentsOfRecords rt cfg recs)
       \<and> mset (commentsOfRecords rt cfg recs0) =
           mset (filter (\<lambda>c. \<forall>vs. set vs \<subseteq> set whiteSpace \<longrightarrow> comment_text c \<noteq> concat vs)
                   (map (mapRecordToComment rt cfg) recs0))
       \<and> (trim s = [] \<longleftrightarrow> (\<exists>vs. set vs \<subseteq> set whiteSpace \<and> s = concat vs))
       \<and> (\<exists>res. fetchAffiliateCommentsForLead rt cfg scripted leadId m = Some res)"
proof -
  from fetchComments_result [OF assms] obtain recs where cs: "cs = commentsOfRecords rt cfg recs"
    by blast
  have a: "\<forall>c \<in> set cs. trim (comment_text c) \<noteq> []
                      \<and> (\<forall>vs. set vs \<subseteq> set whiteSpace \<longrightarrow> comment_text c \<noteq> concat vs)"
  proof
    fix c assume "c \<in> set cs"
    with cs have t: "trim (comment_text c) \<noteq> []" by (simp add: commentsOfRecords_text)
    then have "\<forall>vs. set vs \<subseteq> set whiteSpace \<longrightarrow> comment_text c \<noteq> concat vs"
      by (simp only: trim_not_Nil_iff)
    with t show "trim (comment_text c) \<noteq> []
                  \<and> (\<forall>vs. set vs \<subseteq> set whiteSpace \<longrightarrow> comment_text c \<noteq> concat vs)"
      by blast
  qed
  have b: "sorted (map (\<lambda>c. the (comment_createdTime c)) cs)"
    if "\<forall>c \<in> set cs. comment_createdTime c \<noteq> None"
    using that unfolding cs by (rule commentsOfRecords_sorted)
  from a b cs commentsOfRecords_mset [of rt cfg recs0] trim_Nil_iff [of s]
    fetchComments_scripted_returns [of rt cfg leadId m]
  show ?thesis by blast
qed

lemma blank_comments:
  "commentsOfRecords example_rt example_config blank_comment_records =
     [\<lparr> comment_id = ''recB3'', comment_text = ''  first '',
        comment_createdTime = Some 1709287200000, comment_author = None \<rparr>,
      \<lparr> comment_id = ''recB1'', comment_text = ''second'',
        comment_createdTime = Some 1709371800000, comment_author = None \<rparr>]"
  by (simp add: blank_comment_records_def commentsOfRecords_def mapRecordToComment_def
      commentText_def textCandidates_def example_config_simps get_prop_def or_default_def
      isSet_def trim_examples trim_more_examples array_sort_def compareCreated_def example_rt_def)

theorem fetchComments_sorted_nonblank_witness:
  "fetchAffiliateCommentsForLead example_rt example_config scripted ''recLEAD1''
     (start [okPage \<lparr> records = blank_comment_records, offset = None \<rparr>])
   = Some (Inr [\<lparr> comment_id = ''recB3'', comment_text = ''  first '',
                  comment_createdTime = Some 1709287200000, comment_author = None \<rparr>,
                \<lparr> comment_id = ''recB1'', comment_text = ''second'',
                  comment_createdTime = Some 1709371800000, comment_author = None \<rparr>],
           \<lparr> server = [],
             sent = [pageRequest example_config
                       ''https://api.airtable.com/v0/appBASE/tblrMlNIChN4hKVkM''
                       [(''filterByFormula'', filterFormula example_config ''recLEAD1'')] None] \<rparr>)
   \<and> trim ''  first '' \<noteq> [] \<and> trim ''second'' \<noteq> []
   \<and> trim [CHR 0xC2, CHR 0xA0] = []
   \<and> trim [CHR 0x20, CHR 0xE2, CHR 0x80, CHR 0xA8, CHR 0xEF, CHR 0xBB, CHR 0xBF] = []
   \<and> sorted [1709287200000, 1709371800000 :: int]"
proof -
  let ?u = "''https://api.airtable.com/v0/appBASE/tblrMlNIChN4hKVkM''"
  let ?f = "[(''filterByFormula'', filterFormula example_config ''recLEAD1'')]"
  let ?cs = "[\<lparr> comment_id = ''recB3'', comment_text = ''  first '',
                  comment_createdTime = Some 1709287200000, comment_author = None \<rparr>,
                \<lparr> comment_id = ''recB1'', comment_text = ''second'',
                  comment_createdTime = Some 1709371800000, comment_author = None \<rparr>]"
  have ne: "blank_comment_records \<noteq> []"
    by (simp add: blank_comment_records_def)
  have p: "fetchAllRecords example_rt example_config scripted ?u ?f
             (start [okPage \<lparr> records = blank_comment_records, offset = None \<rparr>])
           = Some (Inr blank_comment_records,
                   \<lparr> server = [], sent = [pageRequest example_config ?u ?f None] \<rparr>)"
    by (simp add: start_def fetchAllRecords_one_page isSet_def)
  have r: "fetchAffiliateCommentsForLead example_rt example_config scripted ''recLEAD1''
             (start [okPage \<lparr> records = blank_comment_records, offset = None \<rparr>])
           = Some (Inr ?cs, \<lparr> server = [], sent = [pageRequest example_config ?u ?f None] \<rparr>)"
    using ne
    by (simp add: fetchAffiliateCommentsForLead_def getCommentsBaseUrl_example p Let_def
        blank_comments)
  have w: "set [[CHR 0xC2, CHR 0xA0]] \<subseteq> set whiteSpace
      \<and> set [[CHR 0x20], [CHR 0xE2, CHR 0x80, CHR 0xA8], [CHR 0xEF, CHR 0xBB, CHR 0xBF]]
          \<subseteq> set whiteSpace"
    by (simp add: whiteSpace_def)
  note t = fetchComments_sorted_nonblank [where h = scripted, OF r]
  from t [of "[]" "[CHR 0xC2, CHR 0xA0]"] w
  have b1: "trim [CHR 0xC2, CHR 0xA0] = []"
    by (metis concat.simps append_Nil2 append.simps)
  from t [of "[]" "[CHR 0x20, CHR 0xE2, CHR 0x80, CHR 0xA8, CHR 0xEF, CHR 0xBB, CHR 0xBF]"]
  have "trim [CHR 0x20, CHR 0xE2, CHR 0x80, CHR 0xA8, CHR 0xEF, CHR 0xBB, CHR 0xBF] = [] \<longleftrightarrow>
          (\<exists>vs. set vs \<subseteq> set whiteSpace
               \<and> [CHR 0x20, CHR 0xE2, CHR 0x80, CHR 0xA8, CHR 0xEF, CHR 0xBB, CHR 0xBF] = concat vs)"
    by blast
  moreover have "[CHR 0x20, CHR 0xE2, CHR 0x80, CHR 0xA8, CHR 0xEF, CHR 0xBB, CHR 0xBF]
                   = concat [[CHR 0x20], [CHR 0xE2, CHR 0x80, CHR 0xA8], [CHR 0xEF, CHR 0xBB, CHR 0xBF]]"
    by simp
  ultimately have b2: "trim [CHR 0x20, CHR 0xE2, CHR 0x80, CHR 0xA8, CHR 0xEF, CHR 0xBB, CHR 0xBF] = []"
    using w by blast
  from t [of "[]" "[]"]
  have "(\<forall>c \<in> set ?cs. trim (comment_text c) \<noteq> [])
        \<and> ((\<forall>c \<in> set ?cs. comment_createdTime c \<noteq> None)
              \<longrightarrow> sorted (map (\<lambda>c. the (comment_createdTime c)) ?cs))"
    by blast
  then have "trim ''  first '' \<noteq> [] \<and> trim ''second'' \<noteq> []
     \<and> sorted [1709287200000, 1709371800000 :: int]"
    by simp
  with r b1 b2 show ?thesis by simp
qed

end
